theory Spec2Isabelle
  imports Complex_Main "HOL-Library.Sublist"
begin

section \<open>SmartCart: ranking, recommendation and evaluation core\<close>

text \<open>
  A shallow embedding of the server-side TypeScript of the SmartCart repository:
  \<^item> \<^verbatim>\<open>server/semanticSearch.ts\<close>: deterministic embedding, cosine similarity, matched
    terms, feature normalizers and the explainable ranker \<^verbatim>\<open>semanticSearch\<close>;
  \<^item> \<^verbatim>\<open>server/irMetrics.ts\<close>: \<^verbatim>\<open>generateAutoRelevanceJudgments\<close>;
  \<^item> \<^verbatim>\<open>server/recommendations.ts\<close>: \<^verbatim>\<open>getSessionRecommendations\<close> and its helpers;
  \<^item> \<^verbatim>\<open>server/db.ts\<close>: the queries those functions call;
  \<^item> \<^verbatim>\<open>server/routers.ts\<close>: the local path of the \<^verbatim>\<open>search.semantic\<close> procedure.

  Conventions of the embedding.
  \<^item> JavaScript numbers are modelled as exact reals: every statement below is about the
    arithmetic the code writes down, not about IEEE rounding.
  \<^item> Strings are \<^typ>\<open>string\<close> and stand for ASCII text: \<^verbatim>\<open>toLowerCase\<close> maps A-Z to a-z,
    \<^verbatim>\<open>\s\<close> is the six ASCII white-space characters, \<^verbatim>\<open>charCodeAt\<close> is the character code.
  \<^item> Nullable columns are \<^typ>\<open>'a option\<close>; the database handle returned by \<^verbatim>\<open>getDb\<close> is a
    \<^typ>\<open>'a option\<close> too, \<^term>\<open>None\<close> when no database is configured or reachable.
  \<^item> The clock (\<^verbatim>\<open>Date.now()\<close>) is a parameter \<open>now\<close>, in milliseconds.
  \<^item> Rows come back from a query without \<^verbatim>\<open>ORDER BY\<close> in table order, and rows that an
    \<^verbatim>\<open>ORDER BY\<close> leaves equal keep their table order. This is a convention of the model:
    PostgreSQL fixes neither order.
\<close>

subsection \<open>Strings\<close>

definition is_space :: "char \<Rightarrow> bool" where
  "is_space c =
     (c = CHR 0x20 \<or> c = CHR 0x09 \<or> c = CHR 0x0A \<or> c = CHR 0x0B \<or> c = CHR 0x0C \<or> c = CHR 0x0D)"

definition lower_char :: "char \<Rightarrow> char" where
  "lower_char c =
     (let n = (of_char c :: nat) in if 65 \<le> n \<and> n \<le> 90 then char_of (n + 32) else c)"

definition toLowerCase :: "string \<Rightarrow> string" where
  "toLowerCase s = map lower_char s"

text \<open>
  \<^verbatim>\<open>s.split(/\s+/)\<close>: the pieces between maximal runs of white space. A run at the start or
  at the end of the string leaves an empty piece there, and the empty string splits into
  one empty piece.
\<close>

function split_ws :: "string \<Rightarrow> string list" where
  "split_ws s =
     (case dropWhile (\<lambda>c. \<not> is_space c) s of
        [] \<Rightarrow> [takeWhile (\<lambda>c. \<not> is_space c) s]
      | r # rs \<Rightarrow> takeWhile (\<lambda>c. \<not> is_space c) s # split_ws (dropWhile is_space rs))"
  by pat_completeness auto
termination
proof (relation "measure length")
  show "wf (measure length)" by simp
next
  fix s :: string and r rs
  assume a: "dropWhile (\<lambda>c. \<not> is_space c) s = r # rs"
  have "length (dropWhile is_space rs) \<le> length rs"
    by (rule length_dropWhile_le)
  moreover have "length (r # rs) \<le> length s"
    using a length_dropWhile_le[of "\<lambda>c. \<not> is_space c" s] by simp
  ultimately show "(dropWhile is_space rs, s) \<in> measure length" by simp
qed

declare split_ws.simps [simp del]

text \<open>\<^verbatim>\<open>s.trim()\<close>.\<close>

definition trim :: "string \<Rightarrow> string" where
  "trim s = rev (dropWhile is_space (rev (dropWhile is_space s)))"

text \<open>\<^verbatim>\<open>s.includes(t)\<close>: \<open>t\<close> occurs in \<open>s\<close> as a contiguous substring.\<close>

fun str_includes :: "string \<Rightarrow> string \<Rightarrow> bool" where
  "str_includes [] t = (t = [])"
| "str_includes (c # s) t = (prefix t (c # s) \<or> str_includes s t)"

subsection \<open>Data model (\<^verbatim>\<open>drizzle/schema.ts\<close>)\<close>

type_synonym vec = "real list"

datatype availability = in_stock | low_stock | out_of_stock

record product =
  prod_id :: int
  title :: string
  description :: "string option"
  category :: "string option"
  price :: "real option"
  rating :: "real option"
  availability :: "availability option"
  stockQuantity :: "int option"
  isFeatured :: bool
  createdAt :: real

datatype interactionType = view | click | search_click | add_to_cart | purchase

record interaction =
  i_sessionId :: string
  i_productId :: int
  i_interactionType :: interactionType
  i_createdAt :: real

record rankingWeight =
  rw_id :: int
  rw_name :: string
  alpha :: real
  beta :: real
  gamma :: real
  delta :: real
  epsilon :: real
  isActive :: bool

record searchLog =
  log_id :: int
  log_sessionId :: string
  log_query :: string
  log_queryEmbedding :: vec
  log_resultsCount :: nat

text \<open>
  The tables the modelled functions touch. \<open>rankingWeightsSeq\<close> and \<open>searchLogsSeq\<close> are the
  last values of the two \<^verbatim>\<open>serial\<close> id sequences. \<open>productEmbeddings\<close> is keyed by product id
  (the column is \<^verbatim>\<open>unique\<close>); a lookup takes the first row of a key.
\<close>

record database =
  productsTable :: "product list"
  productEmbeddings :: "(int \<times> vec) list"
  interactionsTable :: "interaction list"
  rankingWeightsTable :: "rankingWeight list"
  rankingWeightsSeq :: int
  searchLogsTable :: "searchLog list"
  searchLogsSeq :: int

subsection \<open>Embedding provider (\<^verbatim>\<open>semanticSearch.ts\<close>)\<close>

definition EMBEDDING_DIMENSION :: nat where
  "EMBEDDING_DIMENSION = 384"

definition normalizeVector :: "vec \<Rightarrow> vec" where
  "normalizeVector vector =
     (let magnitude = sqrt (foldl (\<lambda>sum val. sum + val * val) 0 vector)
      in if magnitude = 0 then vector else map (\<lambda>val. val / magnitude) vector)"

text \<open>The value pushed for output index \<open>i\<close>, before normalization.\<close>

definition embeddingComponent :: "string \<Rightarrow> nat \<Rightarrow> real" where
  "embeddingComponent normalizedText i =
     tanh (foldl (\<lambda>value (j, c). value + real (of_char c) * sin (real ((i + 1) * (j + 1)) * 0.01))
             0 (enumerate 0 normalizedText) * 0.001)"

definition generateDeterministicEmbedding :: "string \<Rightarrow> vec" where
  "generateDeterministicEmbedding text =
     (let normalizedText = toLowerCase text
      in normalizeVector (map (embeddingComponent normalizedText) [0..<EMBEDDING_DIMENSION]))"

definition generateEmbedding :: "string \<Rightarrow> vec" where
  "generateEmbedding text = generateDeterministicEmbedding text"

definition cosineSimilarity :: "vec \<Rightarrow> vec \<Rightarrow> real" where
  "cosineSimilarity a b =
     (if length a \<noteq> length b then 0
      else
        (let (dotProduct, normA, normB) =
               foldl (\<lambda>(d, na, nb) (x, y). (d + x * y, na + x * x, nb + y * y)) (0, 0, 0) (zip a b);
             magnitude = sqrt normA * sqrt normB
         in if magnitude = 0 then 0 else dotProduct / magnitude))"

subsection \<open>Matched terms and feature normalizers (\<^verbatim>\<open>semanticSearch.ts\<close>)\<close>

text \<open>\<^verbatim>\<open>query.toLowerCase().split(/\s+/).filter(t => t.length > 2)\<close>\<close>

definition queryTerms :: "string \<Rightarrow> string list" where
  "queryTerms query = filter (\<lambda>t. length t > 2) (split_ws (toLowerCase query))"

definition extractMatchedTerms :: "string \<Rightarrow> string \<Rightarrow> string list" where
  "extractMatchedTerms query productText =
     (let productLower = toLowerCase productText
      in filter (\<lambda>term. str_includes productLower term) (queryTerms query))"

definition normalizePriceScore :: "real \<Rightarrow> real \<Rightarrow> real \<Rightarrow> real" where
  "normalizePriceScore p minPrice maxPrice =
     (if maxPrice = minPrice then 0.5 else 1 - ((p - minPrice) / (maxPrice - minPrice)))"

definition normalizeRatingScore :: "real option \<Rightarrow> real" where
  "normalizeRatingScore r = (case r of None \<Rightarrow> 0.5 | Some x \<Rightarrow> x / 5)"

definition normalizeStockScore :: "availability option \<Rightarrow> int option \<Rightarrow> real" where
  "normalizeStockScore a quantity =
     (if a = Some out_of_stock then 0
      else if a = Some low_stock then 0.5
      else if a = Some in_stock then
        (let qty = (case quantity of None \<Rightarrow> 100 | Some q \<Rightarrow> q)
         in min 1 (0.7 + (real_of_int qty / 500) * 0.3))
      else 0.5)"

definition normalizeRecencyScore :: "real \<Rightarrow> real \<Rightarrow> real" where
  "normalizeRecencyScore now created =
     (let daysSinceCreation = (now - created) / (1000 * 60 * 60 * 24)
      in if daysSinceCreation \<le> 30 then 1
         else if daysSinceCreation \<ge> 365 then 0.1
         else 1 - ((daysSinceCreation - 30) / 335) * 0.9)"

text \<open>\<^verbatim>\<open>Number(product.price) || 0\<close>: an unknown price reads as 0.\<close>

definition priceNumber :: "product \<Rightarrow> real" where
  "priceNumber p = (case price p of None \<Rightarrow> 0 | Some x \<Rightarrow> x)"

text \<open>\<^verbatim>\<open>`${product.title} ${product.description || ""} ${product.category || ""}`\<close>\<close>

definition productText :: "product \<Rightarrow> string" where
  "productText p =
     title p @ '' '' @ (case description p of None \<Rightarrow> [] | Some d \<Rightarrow> d) @ '' '' @
     (case category p of None \<Rightarrow> [] | Some c \<Rightarrow> c)"

subsection \<open>Ranking weights and search logs (\<^verbatim>\<open>db.ts\<close>)\<close>

definition defaultWeights :: rankingWeight where
  "defaultWeights =
     \<lparr>rw_id = 0, rw_name = ''default'', alpha = 0.5, beta = 0.2, gamma = 0.15, delta = 0.1,
      epsilon = 0.05, isActive = True\<rparr>"

text \<open>\<^verbatim>\<open>db.insert(rankingWeights).values({...})\<close>: the row gets the next id of the sequence.\<close>

definition insertRankingWeights :: "database \<Rightarrow> rankingWeight \<Rightarrow> database" where
  "insertRankingWeights db row =
     db\<lparr>rankingWeightsTable := rankingWeightsTable db @ [row\<lparr>rw_id := rankingWeightsSeq db + 1\<rparr>],
        rankingWeightsSeq := rankingWeightsSeq db + 1\<rparr>"

text \<open>
  \<^verbatim>\<open>getActiveRankingWeights\<close>: without a database the defaults are returned and nothing is
  stored; with one, the first active row is returned, and when there is none the defaults
  are inserted and the function calls itself again. The result is the row together with
  the database as the call leaves it.
\<close>

function getActiveRankingWeights :: "database option \<Rightarrow> rankingWeight \<times> database option" where
  "getActiveRankingWeights None = (defaultWeights, None)"
| "getActiveRankingWeights (Some db) =
     (case filter isActive (rankingWeightsTable db) of
        [] \<Rightarrow> getActiveRankingWeights (Some (insertRankingWeights db defaultWeights))
      | r # _ \<Rightarrow> (r, Some db))"
  by pat_completeness auto
termination
proof (relation "measure (\<lambda>d. case d of None \<Rightarrow> 0
                    | Some db \<Rightarrow> if filter isActive (rankingWeightsTable db) = [] then 1 else 0)")
  show "wf (measure (\<lambda>d. case d of None \<Rightarrow> 0
                    | Some db \<Rightarrow> if filter isActive (rankingWeightsTable db) = [] then 1 else (0::nat)))"
    by simp
next
  fix db :: database
  assume "filter isActive (rankingWeightsTable db) = []"
  then show "(Some (insertRankingWeights db defaultWeights), Some db)
      \<in> measure (\<lambda>d. case d of None \<Rightarrow> 0
                    | Some db \<Rightarrow> if filter isActive (rankingWeightsTable db) = [] then 1 else 0)"
    by (simp add: insertRankingWeights_def defaultWeights_def)
qed

declare getActiveRankingWeights.simps [simp del]

text \<open>
  \<^verbatim>\<open>logSearch\<close>: the new row's id, or 0 without a database. The insert is modelled for rows
  that fit the table: the column \<^verbatim>\<open>session_id\<close> is a \<^verbatim>\<open>varchar(64)\<close>, and PostgreSQL refuses a
  longer session id, with which the call (and the search that makes it) fails. A statement
  about the log row assumes a session id of at most 64 characters.
\<close>

definition logSearch :: "database option \<Rightarrow> searchLog \<Rightarrow> int \<times> database option" where
  "logSearch dbo row =
     (case dbo of
        None \<Rightarrow> (0, None)
      | Some db \<Rightarrow>
          (searchLogsSeq db + 1,
           Some (db\<lparr>searchLogsTable := searchLogsTable db @ [row\<lparr>log_id := searchLogsSeq db + 1\<rparr>],
                    searchLogsSeq := searchLogsSeq db + 1\<rparr>)))"

subsection \<open>The ranker (\<^verbatim>\<open>semanticSearch\<close>)\<close>

record scores =
  final :: real
  semantic :: real
  ratingScore :: real
  priceScore :: real
  stockScore :: real
  recencyScore :: real

text \<open>
  A search result. The explanation string, built from the scores after ranking, takes no
  part in scoring or ordering and is left out.
\<close>

record searchResult =
  product :: product
  scores :: scores
  matchedTerms :: "string list"
  position :: nat

text \<open>\<^verbatim>\<open>SemanticSearchOptions\<close>, with the defaults already filled in by the caller.\<close>

record searchOptions =
  opt_limit :: nat
  opt_minScore :: real
  opt_category :: "string option"
  opt_minPrice :: "real option"
  opt_maxPrice :: "real option"
  opt_inStockOnly :: bool
  opt_sessionId :: string

text \<open>
  \<^verbatim>\<open>prices = products.map(p => Number(p.product.price) || 0).filter(p => p > 0)\<close>,
  \<^verbatim>\<open>Math.min(...prices, 0)\<close> and \<^verbatim>\<open>Math.max(...prices, 1)\<close>.
\<close>

definition candidatePrices :: "product list \<Rightarrow> real list" where
  "candidatePrices ps = filter (\<lambda>p. p > 0) (map priceNumber ps)"

definition minPriceInSet :: "product list \<Rightarrow> real" where
  "minPriceInSet ps = fold min (candidatePrices ps) 0"

definition maxPriceInSet :: "product list \<Rightarrow> real" where
  "maxPriceInSet ps = fold max (candidatePrices ps) 1"

text \<open>
  The body of the scoring \<^verbatim>\<open>map\<close> callback, for one candidate whose cosine similarity to the
  query embedding is \<open>semanticScore\<close>.
\<close>

definition scoreProduct ::
  "real \<Rightarrow> string \<Rightarrow> rankingWeight \<Rightarrow> real \<Rightarrow> real \<Rightarrow> product \<times> real \<Rightarrow> searchResult" where
  "scoreProduct now query weights lo hi c =
     (let p = fst c;
          semanticScore = snd c;
          ratingScore = normalizeRatingScore (rating p);
          priceScore = normalizePriceScore (priceNumber p) lo hi;
          stockScore = normalizeStockScore (availability p) (stockQuantity p);
          recencyScore = normalizeRecencyScore now (createdAt p);
          matchedTerms = extractMatchedTerms query (productText p);
          qt = queryTerms query;
          keywordBoost =
            (if length qt > 0 then (real (length matchedTerms) / real (length qt)) * 0.5 else 0);
          finalScore =
            alpha weights * max 0 (semanticScore + keywordBoost) +
            beta weights * ratingScore +
            gamma weights * priceScore +
            delta weights * stockScore +
            epsilon weights * recencyScore
      in \<lparr>product = p,
          scores = \<lparr>final = finalScore, semantic = max 0 semanticScore, ratingScore = ratingScore,
                    priceScore = priceScore, stockScore = stockScore, recencyScore = recencyScore\<rparr>,
          matchedTerms = matchedTerms,
          position = 0\<rparr>)"

text \<open>The four optional filters, in the order the code applies them.\<close>

definition applyFilters :: "searchOptions \<Rightarrow> searchResult list \<Rightarrow> searchResult list" where
  "applyFilters opts scoredProducts =
     (let s1 = (case opt_category opts of
                  None \<Rightarrow> scoredProducts
                | Some c \<Rightarrow>
                    if c = [] then scoredProducts
                    else filter (\<lambda>r. map_option toLowerCase (category (product r)) = Some (toLowerCase c))
                           scoredProducts);
          s2 = (case opt_minPrice opts of
                  None \<Rightarrow> s1
                | Some m \<Rightarrow> filter (\<lambda>r. priceNumber (product r) \<ge> m) s1);
          s3 = (case opt_maxPrice opts of
                  None \<Rightarrow> s2
                | Some m \<Rightarrow> filter (\<lambda>r. priceNumber (product r) \<le> m) s2)
      in if opt_inStockOnly opts
         then filter (\<lambda>r. availability (product r) \<noteq> Some out_of_stock) s3
         else s3)"

text \<open>
  \<^verbatim>\<open>.filter(p => p.scores.final >= minScore).sort((a, b) => b.scores.final - a.scores.final)\<close>
  \<^verbatim>\<open>.slice(0, limit).map((result, index) => ({...result, position: index + 1}))\<close>.
  \<^verbatim>\<open>Array.prototype.sort\<close> is stable, as \<^const>\<open>sort_key\<close> is.
\<close>

definition rankScored :: "searchOptions \<Rightarrow> searchResult list \<Rightarrow> searchResult list" where
  "rankScored opts scoredProducts =
     map (\<lambda>(index, result). result\<lparr>position := index + 1\<rparr>)
       (enumerate 0
          (take (opt_limit opts)
             (sort_key (\<lambda>r. - final (scores r))
                (filter (\<lambda>r. final (scores r) \<ge> opt_minScore opts) scoredProducts))))"

text \<open>
  The candidates after scoring and filtering (the variable \<^verbatim>\<open>scoredProducts\<close>), from the
  candidates paired with their cosine similarities.
\<close>

definition scoredProducts ::
  "real \<Rightarrow> string \<Rightarrow> searchOptions \<Rightarrow> rankingWeight \<Rightarrow> (product \<times> real) list \<Rightarrow> searchResult list" where
  "scoredProducts now query opts weights sims =
     applyFilters opts
       (map (scoreProduct now query weights (minPriceInSet (map fst sims)) (maxPriceInSet (map fst sims)))
          sims)"

definition rankWithSimilarities ::
  "real \<Rightarrow> string \<Rightarrow> searchOptions \<Rightarrow> rankingWeight \<Rightarrow> (product \<times> real) list \<Rightarrow> searchResult list" where
  "rankWithSimilarities now query opts weights sims =
     rankScored opts (scoredProducts now query opts weights sims)"

text \<open>
  The cosine of each candidate: against the stored embedding, or against the deterministic
  embedding of the product text when none is stored.
\<close>

definition candidateSimilarities :: "vec \<Rightarrow> (product \<times> vec option) list \<Rightarrow> (product \<times> real) list" where
  "candidateSimilarities queryEmbedding candidates =
     map (\<lambda>(p, embedding).
            (p, cosineSimilarity queryEmbedding
                  (case embedding of
                     None \<Rightarrow> generateDeterministicEmbedding (productText p)
                   | Some e \<Rightarrow> e)))
       candidates"

text \<open>
  \<^verbatim>\<open>semanticSearch(query, options)\<close>. \<open>candidates\<close> is what
  \<^verbatim>\<open>getAllProductsWithOptionalEmbeddings(5000, 0)\<close> returned; the embedding takes that
  list as given. The function returns the results, the id of the
  search log row and the database as it leaves it. The explanation rows it saves for the
  results afterwards are not modelled.
\<close>

definition semanticSearch ::
  "real \<Rightarrow> (product \<times> vec option) list \<Rightarrow> string \<Rightarrow> searchOptions \<Rightarrow> database option
     \<Rightarrow> searchResult list \<times> int \<times> database option" where
  "semanticSearch now candidates query opts dbo =
     (let queryEmbedding = generateEmbedding query;
          (weights, dbo1) = getActiveRankingWeights dbo;
          results = rankWithSimilarities now query opts weights
                      (candidateSimilarities queryEmbedding candidates);
          (searchLogId, dbo2) =
            logSearch dbo1
              \<lparr>log_id = 0, log_sessionId = opt_sessionId opts, log_query = query,
               log_queryEmbedding = queryEmbedding, log_resultsCount = length results\<rparr>
      in (results, searchLogId, dbo2))"

subsection \<open>Automatic relevance judgments (\<^verbatim>\<open>irMetrics.ts\<close>)\<close>

record relevanceJudgment =
  j_productId :: int
  relevanceScore :: nat

text \<open>
  The \<^verbatim>\<open>for (const term of queryTerms)\<close> loop: the state is \<^verbatim>\<open>(matchCount, exactTitleMatch)\<close>.
\<close>

definition countMatches :: "string list \<Rightarrow> string \<Rightarrow> string \<Rightarrow> nat \<times> bool" where
  "countMatches terms productTextLower titleLower =
     foldl (\<lambda>(matchCount, exactTitleMatch) term.
              (if str_includes productTextLower term then matchCount + 1 else matchCount,
               if str_includes titleLower term then True else exactTitleMatch))
       (0, False) terms"

definition judgeProduct :: "string list \<Rightarrow> product \<Rightarrow> relevanceJudgment" where
  "judgeProduct terms p =
     (let (matchCount, exactTitleMatch) =
            countMatches terms (toLowerCase (productText p)) (toLowerCase (title p));
          relevance =
            (if length terms > 0 then
               (let matchRatio = real matchCount / real (length terms)
                in if matchRatio \<ge> 0.8 \<and> exactTitleMatch then 3
                   else if matchRatio \<ge> 0.5 \<or> exactTitleMatch then 2
                   else if matchRatio > 0 then 1
                   else 0)
             else 0)
      in \<lparr>j_productId = prod_id p, relevanceScore = relevance\<rparr>)"

definition generateAutoRelevanceJudgments :: "string \<Rightarrow> product list \<Rightarrow> relevanceJudgment list" where
  "generateAutoRelevanceJudgments query products =
     (let terms = queryTerms query in map (judgeProduct terms) products)"

text \<open>
  The query terms as the specification words them: tokenize on white space, drop tokens of
  length at most 2, lowercase.
\<close>

definition spec_queryTerms :: "string \<Rightarrow> string list" where
  "spec_queryTerms q = map toLowerCase (filter (\<lambda>t. length t > 2) (split_ws q))"

text \<open>
  The piecewise relevance as the specification words it. The query terms are the lowercased
  white-space tokens of the query of length above 2; the product text is the title, the
  description and the category joined by single blanks (an absent one being empty),
  lowercased; \<open>m\<close> is the number of query terms that occur in the product text, and
  \<open>exactTitle\<close> says that some query term occurs in the lowercased title.
\<close>

definition spec_relevance :: "string \<Rightarrow> product \<Rightarrow> nat" where
  "spec_relevance query p =
     (let terms = spec_queryTerms query;
          txt = toLowerCase (title p @ '' '' @ (case description p of None \<Rightarrow> [] | Some d \<Rightarrow> d)
                               @ '' '' @ (case category p of None \<Rightarrow> [] | Some c \<Rightarrow> c));
          m = length (filter (\<lambda>t. sublist t txt) terms);
          exactTitle = list_ex (\<lambda>t. sublist t (toLowerCase (title p))) terms
      in if terms = [] then 0
         else if real m / real (length terms) \<ge> 0.8 \<and> exactTitle then 3
         else if real m / real (length terms) \<ge> 0.5 \<or> exactTitle then 2
         else if m > 0 then 1
         else 0)"

subsection \<open>Queries of the recommender (\<^verbatim>\<open>db.ts\<close>)\<close>

text \<open>
  \<^verbatim>\<open>getSessionInteractions\<close>: the session's interactions, most recent first, at most \<open>limit\<close>
  (interactions of equal time in table order).
\<close>

definition getSessionInteractions :: "database option \<Rightarrow> string \<Rightarrow> nat \<Rightarrow> interaction list" where
  "getSessionInteractions dbo sessionId limit =
     (case dbo of
        None \<Rightarrow> []
      | Some db \<Rightarrow>
          take limit
            (sort_key (\<lambda>i. - i_createdAt i)
               (filter (\<lambda>i. i_sessionId i = sessionId) (interactionsTable db))))"

definition getEmbeddingByProductId :: "database option \<Rightarrow> int \<Rightarrow> vec option" where
  "getEmbeddingByProductId dbo productId =
     (case dbo of None \<Rightarrow> None | Some db \<Rightarrow> map_of (productEmbeddings db) productId)"

text \<open>
  \<^verbatim>\<open>getProductsWithEmbeddings\<close>: the inner join of products and embeddings, in the order of the
  products table.
\<close>

definition getProductsWithEmbeddings :: "database option \<Rightarrow> (product \<times> vec) list" where
  "getProductsWithEmbeddings dbo =
     (case dbo of
        None \<Rightarrow> []
      | Some db \<Rightarrow>
          List.map_filter
            (\<lambda>p. case map_of (productEmbeddings db) (prod_id p) of
                    None \<Rightarrow> None
                  | Some e \<Rightarrow> Some (p, e))
            (productsTable db))"

text \<open>
  \<^verbatim>\<open>getFeaturedProducts\<close>: featured products by rating, highest first, at most \<open>limit\<close>.
  PostgreSQL sorts \<^verbatim>\<open>NULL\<close> first in a descending order.
\<close>

definition getFeaturedProducts :: "database option \<Rightarrow> nat \<Rightarrow> product list" where
  "getFeaturedProducts dbo limit =
     (case dbo of
        None \<Rightarrow> []
      | Some db \<Rightarrow>
          (let featured = filter isFeatured (productsTable db)
           in take limit
                (filter (\<lambda>p. rating p = None) featured @
                 sort_key (\<lambda>p. - (case rating p of None \<Rightarrow> 0 | Some r \<Rightarrow> r))
                   (filter (\<lambda>p. rating p \<noteq> None) featured))))"

subsection \<open>Session recommendations (\<^verbatim>\<open>recommendations.ts\<close>)\<close>

record recommendationResult =
  rec_product :: product
  score :: real
  reason :: string
  sourceProductId :: "int option"

definition interactionWeights :: "interactionType \<Rightarrow> real" where
  "interactionWeights t =
     (case t of purchase \<Rightarrow> 5 | add_to_cart \<Rightarrow> 4 | search_click \<Rightarrow> 3 | click \<Rightarrow> 2 | view \<Rightarrow> 1)"

text \<open>
  \<^verbatim>\<open>Map.prototype.set\<close> on an insertion-ordered map: a new key goes to the end, an existing
  key keeps its place.
\<close>

fun map_set :: "('k \<times> 'v) list \<Rightarrow> 'k \<Rightarrow> 'v \<Rightarrow> ('k \<times> 'v) list" where
  "map_set [] k v = [(k, v)]"
| "map_set ((k', v') # m) k v = (if k' = k then (k, v) # m else (k', v') # map_set m k v)"

text \<open>
  The \<^verbatim>\<open>interactions.forEach\<close> loop that fills \<^verbatim>\<open>productScores\<close>: each product keeps the
  highest score of its interactions, with the type of that interaction. \<open>n\<close> is
  \<^verbatim>\<open>interactions.length\<close>.
\<close>

definition scoreInteraction ::
  "nat \<Rightarrow> (int \<times> real \<times> interactionType) list \<Rightarrow> nat \<times> interaction
     \<Rightarrow> (int \<times> real \<times> interactionType) list" where
  "scoreInteraction n productScores x =
     (let index = fst x;
          i = snd x;
          weight = interactionWeights (i_interactionType i);
          recencyBoost = 1 + (real n - real index) / real n;
          s = weight * recencyBoost
      in case map_of productScores (i_productId i) of
           None \<Rightarrow> map_set productScores (i_productId i) (s, i_interactionType i)
         | Some existing \<Rightarrow>
             if fst existing < s then map_set productScores (i_productId i) (s, i_interactionType i)
             else productScores)"

definition productScoresOf :: "interaction list \<Rightarrow> (int \<times> real \<times> interactionType) list" where
  "productScoresOf interactions =
     foldl (scoreInteraction (length interactions)) [] (enumerate 0 interactions)"

text \<open>
  The interacted products that have a stored embedding, each with its score
  (\<^verbatim>\<open>productScores.get(productId)?.score || 1\<close>).
\<close>

definition interactedEmbeddingsOf ::
  "database option \<Rightarrow> (int \<times> real \<times> interactionType) list \<Rightarrow> (int \<times> vec \<times> real) list" where
  "interactedEmbeddingsOf dbo productScores =
     List.map_filter
       (\<lambda>productId.
          case getEmbeddingByProductId dbo productId of
            None \<Rightarrow> None
          | Some e \<Rightarrow>
              Some (productId, e,
                    (case map_of productScores productId of
                       None \<Rightarrow> 1
                     | Some x \<Rightarrow> if fst x = 0 then 1 else fst x)))
       (map fst productScores)"

definition generateRecommendationReason :: "real \<Rightarrow> interactionType option \<Rightarrow> string" where
  "generateRecommendationReason similarity t =
     (let r = (if similarity > 0.8 then ''Very similar to items you viewed''
               else if similarity > 0.6 then ''Similar to your interests''
               else if similarity > 0.4 then ''Related to your browsing''
               else ''You might like this'')
      in if t = Some purchase then ''Based on your purchase''
         else if t = Some add_to_cart then ''Similar to items in your cart''
         else r)"

text \<open>
  The inner loop over the interacted products, for one candidate embedding: the state is
  \<^verbatim>\<open>(totalScore, bestMatch.productId, bestMatch.similarity)\<close>.
\<close>

definition matchInteracted :: "vec \<Rightarrow> (int \<times> vec \<times> real) list \<Rightarrow> real \<times> int \<times> real" where
  "matchInteracted embedding interactedEmbeddings =
     foldl (\<lambda>(totalScore, bestId, bestSim) (productId, e, s).
              (let similarity = cosineSimilarity embedding e;
                   weightedSimilarity = similarity * s
               in (totalScore + weightedSimilarity,
                   if similarity > bestSim then productId else bestId,
                   if similarity > bestSim then similarity else bestSim)))
       (0, 0, 0) interactedEmbeddings"

text \<open>One round of the loop over all products: the recommendation pushed, if any.\<close>

definition recommendCandidate ::
  "int list \<Rightarrow> (int \<times> real \<times> interactionType) list \<Rightarrow> (int \<times> vec \<times> real) list
     \<Rightarrow> product \<times> vec \<Rightarrow> recommendationResult option" where
  "recommendCandidate excludeSet productScores interactedEmbeddings c =
     (let p = fst c; embedding = snd c
      in if prod_id p \<in> set excludeSet then None
         else
           (let (totalScore, bestId, bestSim) = matchInteracted embedding interactedEmbeddings;
                avgScore = totalScore / real (length interactedEmbeddings)
            in if avgScore > 0.1
               then Some \<lparr>rec_product = p, score = avgScore,
                          reason = generateRecommendationReason bestSim
                                     (map_option snd (map_of productScores bestId)),
                          sourceProductId = Some bestId\<rparr>
               else None))"

definition getColdStartRecommendations ::
  "database option \<Rightarrow> nat \<Rightarrow> int list \<Rightarrow> recommendationResult list" where
  "getColdStartRecommendations dbo limit excludeProductIds =
     (let featured = getFeaturedProducts dbo (limit + length excludeProductIds)
      in map (\<lambda>p. \<lparr>rec_product = p, score = 1, reason = ''Popular product'', sourceProductId = None\<rparr>)
           (take limit (filter (\<lambda>p. prod_id p \<notin> set excludeProductIds) featured)))"

definition getSessionRecommendations ::
  "database option \<Rightarrow> string \<Rightarrow> nat \<Rightarrow> int list \<Rightarrow> recommendationResult list" where
  "getSessionRecommendations dbo sessionId limit excludeProductIds =
     (let interactions = getSessionInteractions dbo sessionId 20
      in if length interactions = 0 then getColdStartRecommendations dbo limit excludeProductIds
         else
           (let productScores = productScoresOf interactions;
                interactedProductIds = map fst productScores;
                interactedEmbeddings = interactedEmbeddingsOf dbo productScores
            in if length interactedEmbeddings = 0
               then getColdStartRecommendations dbo limit excludeProductIds
               else
                 (let allProducts = getProductsWithEmbeddings dbo;
                      excludeSet = excludeProductIds @ interactedProductIds;
                      recommendations =
                        List.map_filter
                          (recommendCandidate excludeSet productScores interactedEmbeddings)
                          allProducts
                  in take limit (sort_key (\<lambda>r. - score r) recommendations))))"

subsection \<open>Keyword search (\<^verbatim>\<open>db.ts\<close>) and the search procedure (\<^verbatim>\<open>routers.ts\<close>)\<close>

text \<open>
  SQL \<^verbatim>\<open>LIKE\<close>: in the pattern \<^verbatim>\<open>%\<close> stands for any run of characters, \<^verbatim>\<open>_\<close> for any one
  character, and a backslash takes the next character literally. (A pattern that ends in a
  lone backslash is an error in PostgreSQL; the patterns built below end in \<^verbatim>\<open>%\<close>.)
\<close>

fun like_match :: "string \<Rightarrow> string \<Rightarrow> bool" where
  "like_match [] s = (s = [])"
| "like_match (p # ps) [] = (p = CHR ''%'' \<and> like_match ps [])"
| "like_match (p # ps) (c # t) =
     (if p = CHR ''%'' then like_match ps (c # t) \<or> like_match (p # ps) t
      else if p = CHR ''_'' then like_match ps t
      else if p = CHR 0x5C then (case ps of [] \<Rightarrow> False | q # qs \<Rightarrow> q = c \<and> like_match qs t)
      else p = c \<and> like_match ps t)"

text \<open>\<^verbatim>\<open>s ILIKE pattern\<close>: \<^verbatim>\<open>LIKE\<close> without regard to case.\<close>

definition ilike :: "string \<Rightarrow> string \<Rightarrow> bool" where
  "ilike s pattern = like_match (toLowerCase pattern) (toLowerCase s)"

definition searchProductsByKeyword :: "database option \<Rightarrow> string \<Rightarrow> nat \<Rightarrow> product list" where
  "searchProductsByKeyword dbo keyword limit =
     (case dbo of
        None \<Rightarrow> []
      | Some db \<Rightarrow>
          (let searchTerm = ''%'' @ trim keyword @ ''%''
           in take limit
                (filter
                   (\<lambda>p. ilike (title p) searchTerm
                        \<or> ilike (case description p of None \<Rightarrow> [] | Some d \<Rightarrow> d) searchTerm
                        \<or> ilike (case category p of None \<Rightarrow> [] | Some c \<Rightarrow> c) searchTerm)
                   (productsTable db))))"

record searchResponse =
  resp_results :: "searchResult list"
  resp_searchLogId :: int
  aiServiceUsed :: bool
  fallbackUsed :: "string option"

text \<open>The filter the procedure applies to the keyword matches.\<close>

definition keywordFilter :: "searchOptions \<Rightarrow> product \<Rightarrow> bool" where
  "keywordFilter input p =
     (let productPrice = priceNumber p
      in if (case opt_category input of
               None \<Rightarrow> False
             | Some c \<Rightarrow> c \<noteq> [] \<and> map_option toLowerCase (category p) \<noteq> Some (toLowerCase c))
         then False
         else if (case opt_minPrice input of None \<Rightarrow> False | Some m \<Rightarrow> productPrice < m) then False
         else if (case opt_maxPrice input of None \<Rightarrow> False | Some m \<Rightarrow> productPrice > m) then False
         else if opt_inStockOnly input \<and> availability p = Some out_of_stock then False
         else True)"

text \<open>The result the procedure builds for the keyword match at \<open>index\<close>.\<close>

definition keywordResult :: "nat \<times> product \<Rightarrow> searchResult" where
  "keywordResult x =
     (let index = fst x; p = snd x
      in \<lparr>product = p,
          scores = \<lparr>final = 0.5, semantic = 0,
                    ratingScore = (case rating p of None \<Rightarrow> 0.5 | Some r \<Rightarrow> r / 5),
                    priceScore = 0.5,
                    stockScore = (if availability p = Some out_of_stock then 0 else 1),
                    recencyScore = 0.5\<rparr>,
          matchedTerms = [],
          position = index + 1\<rparr>)"

text \<open>
  The \<^verbatim>\<open>search.semantic\<close> procedure on its local path (the external AI service is not
  requested, is down, fails or returns nothing): \<open>input\<close> holds the validated input fields
  and the session id.
\<close>

definition searchSemantic ::
  "real \<Rightarrow> (product \<times> vec option) list \<Rightarrow> string \<Rightarrow> searchOptions \<Rightarrow> database option
     \<Rightarrow> searchResponse \<times> database option" where
  "searchSemantic now candidates query input dbo =
     (let (results, searchLogId, dbo') = semanticSearch now candidates query input dbo
      in if length results = 0 then
           (let keywordProducts = searchProductsByKeyword dbo' query (opt_limit input);
                filteredKeywordProducts = filter (keywordFilter input) keywordProducts
            in (\<lparr>resp_results = map keywordResult (enumerate 0 filteredKeywordProducts),
                 resp_searchLogId = searchLogId,
                 aiServiceUsed = False,
                 fallbackUsed = Some ''keyword''\<rparr>, dbo'))
         else
           (\<lparr>resp_results = results, resp_searchLogId = searchLogId, aiServiceUsed = False,
              fallbackUsed = None\<rparr>, dbo'))"

subsection \<open>Notions of the specification\<close>

text \<open>The Euclidean norm of a vector.\<close>

definition l2norm :: "vec \<Rightarrow> real" where
  "l2norm v = sqrt (\<Sum>x\<leftarrow>v. x\<^sup>2)"

text \<open>
  The reference construction of the deterministic embedding, component \<open>i\<close> of the
  lowercased text \<open>t\<close>:
  \<open>tanh (0.001 \<Sum>\<^sub>j codepoint (t\<^sub>j) sin (0.01 (i + 1) (j + 1)))\<close>.
\<close>

definition spec_component :: "string \<Rightarrow> nat \<Rightarrow> real" where
  "spec_component t i =
     tanh (0.001 * (\<Sum>j<length t. real (of_char (t ! j)) * sin (0.01 * real (i + 1) * real (j + 1))))"

text \<open>
  The price sub-score as the specification words it: min-max normalization, inverted, over
  the prices of the candidate set, an unknown price counting as 0 there; 0.5 when the
  minimum and the maximum coincide, and 0.5 for a product of unknown price.
\<close>

definition spec_priceScore :: "product list \<Rightarrow> product \<Rightarrow> real" where
  "spec_priceScore candidates p =
     (let prices = map (\<lambda>c. case price c of None \<Rightarrow> 0 | Some x \<Rightarrow> x) candidates;
          lo = Min (set prices);
          hi = Max (set prices)
      in case price p of
           None \<Rightarrow> 0.5
         | Some x \<Rightarrow> if lo = hi then 0.5 else 1 - (x - lo) / (hi - lo))"

text \<open>A keyword free of the characters that are special in a \<^verbatim>\<open>LIKE\<close> pattern.\<close>

definition no_wildcards :: "string \<Rightarrow> bool" where
  "no_wildcards kw = list_all (\<lambda>c. c \<noteq> CHR ''%'' \<and> c \<noteq> CHR ''_'' \<and> c \<noteq> CHR 0x5C) kw"

subsection \<open>Example inputs\<close>

text \<open>
  Scenario S1 of the specification: the query, two products of equal price, stock and age
  (in stock with 500 units, created 30 days before \<open>s1_now\<close>), the default options.
\<close>

definition s1_query :: string where
  "s1_query = ''wireless bluetooth headphones''"

definition s1_now :: real where
  "s1_now = 30 * (1000 * 60 * 60 * 24)"

definition productA :: product where
  "productA =
     \<lparr>prod_id = 1, title = ''Sony WH-1000XM5 Wireless Bluetooth Headphones'',
      description = None, category = None, price = Some 329.99, rating = Some 4.8,
      availability = Some in_stock, stockQuantity = Some 500, isFeatured = False, createdAt = 0\<rparr>"

definition productB :: product where
  "productB =
     \<lparr>prod_id = 2, title = ''Luxury Leather Office Chair'',
      description = None, category = None, price = Some 329.99, rating = Some 5,
      availability = Some in_stock, stockQuantity = Some 500, isFeatured = False, createdAt = 0\<rparr>"

definition s1_opts :: searchOptions where
  "s1_opts =
     \<lparr>opt_limit = 20, opt_minScore = 0.1, opt_category = None, opt_minPrice = None,
      opt_maxPrice = None, opt_inStockOnly = False, opt_sessionId = ''session''\<rparr>"

text \<open>A copy of product B whose price is unknown, and two copies that differ in the id only.\<close>

definition productNoPrice :: product where
  "productNoPrice = productB\<lparr>prod_id := 3, price := None\<rparr>"

definition twinFirst :: product where
  "twinFirst = productB\<lparr>prod_id := 7\<rparr>"

definition twinSecond :: product where
  "twinSecond = productB\<lparr>prod_id := 4\<rparr>"

text \<open>Two copies of product B priced 10 and 20.\<close>

definition cheapProduct :: product where
  "cheapProduct = productB\<lparr>prod_id := 8, price := Some 10\<rparr>"

definition dearProduct :: product where
  "dearProduct = productB\<lparr>prod_id := 9, price := Some 20\<rparr>"

text \<open>A database with empty tables.\<close>

definition emptyDb :: database where
  "emptyDb =
     \<lparr>productsTable = [], productEmbeddings = [], interactionsTable = [],
      rankingWeightsTable = [], rankingWeightsSeq = 0, searchLogsTable = [], searchLogsSeq = 0\<rparr>"

text \<open>A database whose catalog is product A alone, with no ranking weights stored yet.\<close>

definition singleDb :: database where
  "singleDb = emptyDb\<lparr>productsTable := [productA]\<rparr>"

text \<open>
  Scenario S4 of the specification: products p1, p2, cX, cY (ids 1 to 4) with stored
  embeddings, and a session that added p2 to the cart and then viewed p1. The four unit
  vectors below have the cosines of the scenario: 0.9 and 0.6 from cX to p1 and p2, 0.1
  from cY to each.
\<close>

definition e_p1 :: vec where "e_p1 = [1, 0, 0, 0, 0, 0]"
definition e_p2 :: vec where "e_p2 = [0.3, 0, 0, 0.1, 0.3, 0.9]"
definition e_cX :: vec where "e_cX = [0.9, 0, 0, 0.3, 0.1, 0.3]"
definition e_cY :: vec where "e_cY = [0.1, 0.1, 0.7, 0.7, 0, 0]"

text \<open>A product with the given id and title and unremarkable other columns.\<close>

definition plainProduct :: "int \<Rightarrow> string \<Rightarrow> product" where
  "plainProduct i t =
     \<lparr>prod_id = i, title = t, description = None, category = None, price = Some 10,
      rating = Some 4, availability = Some in_stock, stockQuantity = Some 100,
      isFeatured = False, createdAt = 0\<rparr>"

text \<open>The database of scenario S4, for any four embeddings.\<close>

definition s4_db :: "vec \<Rightarrow> vec \<Rightarrow> vec \<Rightarrow> vec \<Rightarrow> database" where
  "s4_db e1 e2 eX eY =
     emptyDb\<lparr>productsTable := [plainProduct 1 ''p1'', plainProduct 2 ''p2'',
                               plainProduct 3 ''cX'', plainProduct 4 ''cY''],
             productEmbeddings := [(1, e1), (2, e2), (3, eX), (4, eY)],
             interactionsTable :=
               [\<lparr>i_sessionId = ''s4'', i_productId = 2, i_interactionType = add_to_cart, i_createdAt = 1000\<rparr>,
                \<lparr>i_sessionId = ''s4'', i_productId = 1, i_interactionType = view, i_createdAt = 2000\<rparr>]\<rparr>"


definition featuredDb :: database where
  "featuredDb =
     emptyDb\<lparr>productsTable := [(plainProduct 1 ''p1'')\<lparr>isFeatured := True\<rparr>],
             interactionsTable :=
               [\<lparr>i_sessionId = ''f'', i_productId = 1, i_interactionType = view, i_createdAt = 1\<rparr>]\<rparr>"

text \<open>The three products of the repository's tests of the automatic judgments.\<close>

definition testProducts :: "product list" where
  "testProducts =
     [(plainProduct 1 ''Sony Wireless Headphones'')
        \<lparr>description := Some ''Noise cancelling'', category := Some ''Electronics''\<rparr>,
      (plainProduct 2 ''Logitech Mouse'')
        \<lparr>description := Some ''Wireless gaming mouse'', category := Some ''Electronics''\<rparr>,
      (plainProduct 3 ''Running Shoes'')
        \<lparr>description := Some ''Nike athletic shoes'', category := Some ''Sports''\<rparr>]"

text \<open>
  Scenario S5 of the specification: the query \<^verbatim>\<open>unicorn plush\<close>, a catalog of two old products
  whose titles contain it (one out of stock, one in stock), and a request with the highest
  score threshold the procedure accepts.
\<close>

definition s5_query :: string where "s5_query = ''unicorn plush''"

definition s5_now :: real where "s5_now = 400 * (1000 * 60 * 60 * 24)"

definition toy :: product where
  "toy = \<lparr>prod_id = 1, title = ''Unicorn Plush Toy'', description = None, category = Some ''Toys'',
          price = Some 10, rating = Some 3, availability = Some out_of_stock, stockQuantity = Some 0,
          isFeatured = False, createdAt = 0\<rparr>"

definition keyring :: product where
  "keyring = \<lparr>prod_id = 2, title = ''Unicorn Plush Keyring'', description = None, category = Some ''Toys'',
          price = Some 10, rating = Some 3, availability = Some in_stock, stockQuantity = Some 100,
          isFeatured = False, createdAt = 0\<rparr>"

definition unicornDb :: database where
  "unicornDb = emptyDb\<lparr>productsTable := [toy, keyring]\<rparr>"

text \<open>The same catalog with a third product that is low in stock.\<close>

definition bear :: product where
  "bear = \<lparr>prod_id = 3, title = ''Unicorn Plush Bear'', description = None, category = Some ''Toys'',
          price = Some 10, rating = Some 3, availability = Some low_stock, stockQuantity = Some 2,
          isFeatured = False, createdAt = 0\<rparr>"

definition plushDb :: database where
  "plushDb = emptyDb\<lparr>productsTable := [toy, keyring, bear]\<rparr>"

definition s5_input :: searchOptions where
  "s5_input = \<lparr>opt_limit = 20, opt_minScore = 1, opt_category = None, opt_minPrice = None,
      opt_maxPrice = None, opt_inStockOnly = False, opt_sessionId = ''session''\<rparr>"

section \<open>Properties\<close>

subsection \<open>Strings and query terms\<close>

lemma is_space_codes: "is_space c \<longleftrightarrow> (of_char c :: nat) \<in> {32, 9, 10, 11, 12, 13}"
proof -
  have e: "\<And>d. (c = d) = ((of_char c :: nat) = of_char d)" by simp
  show ?thesis unfolding is_space_def by (subst (1 2 3 4 5 6) e) auto
qed

lemma is_space_lower_char [simp]: "is_space (lower_char c) = is_space c"
proof (cases "65 \<le> (of_char c :: nat) \<and> (of_char c :: nat) \<le> 90")
  case True
  then have "(of_char (lower_char c) :: nat) = of_char c + 32"
    by (simp add: lower_char_def Let_def)
  with True show ?thesis by (auto simp: is_space_codes)
next
  case False
  then have "lower_char c = c" by (auto simp add: lower_char_def Let_def)
  then show ?thesis by simp
qed

lemma not_space_lower_comp: "(\<lambda>c. \<not> is_space c) \<circ> lower_char = (\<lambda>c. \<not> is_space c)"
  and space_lower_comp: "is_space \<circ> lower_char = is_space"
  by (auto simp: fun_eq_iff)

lemma split_ws_toLowerCase: "split_ws (toLowerCase s) = map toLowerCase (split_ws s)"
proof (induction s rule: split_ws.induct)
  case (1 s)
  let ?P = "\<lambda>c. \<not> is_space c"
  have d: "dropWhile ?P (toLowerCase s) = toLowerCase (dropWhile ?P s)"
    and t: "takeWhile ?P (toLowerCase s) = toLowerCase (takeWhile ?P s)"
    by (simp_all add: toLowerCase_def dropWhile_map takeWhile_map not_space_lower_comp)
  have lhs: "split_ws (toLowerCase s) =
      (case toLowerCase (dropWhile ?P s) of
         [] \<Rightarrow> [toLowerCase (takeWhile ?P s)]
       | r # rs \<Rightarrow> toLowerCase (takeWhile ?P s) # split_ws (dropWhile is_space rs))"
    by (subst split_ws.simps) (simp only: d t)
  show ?case
  proof (cases "dropWhile ?P s")
    case Nil
    have "split_ws s = [takeWhile ?P s]"
      by (subst split_ws.simps) (simp only: Nil list.case)
    moreover have "split_ws (toLowerCase s) = [toLowerCase (takeWhile ?P s)]"
      unfolding lhs Nil by (simp add: toLowerCase_def)
    ultimately show ?thesis by simp
  next
    case (Cons r rs)
    from 1[OF Cons] have ih: "split_ws (toLowerCase (dropWhile is_space rs)) = map toLowerCase (split_ws (dropWhile is_space rs))" .
    have e: "dropWhile is_space (map lower_char rs) = toLowerCase (dropWhile is_space rs)"
      by (simp add: toLowerCase_def dropWhile_map space_lower_comp)
    have "split_ws s = takeWhile ?P s # split_ws (dropWhile is_space rs)"
      by (subst split_ws.simps) (simp only: Cons list.case)
    moreover have "split_ws (toLowerCase s) = toLowerCase (takeWhile ?P s) # split_ws (toLowerCase (dropWhile is_space rs))"
      unfolding lhs Cons by (simp add: toLowerCase_def e[unfolded toLowerCase_def])
    ultimately show ?thesis by (simp add: ih)
  qed
qed

lemma queryTerms_spec: "queryTerms q = spec_queryTerms q"
proof -
  have "filter (\<lambda>t. 2 < length t) (map toLowerCase xs) = map toLowerCase (filter (\<lambda>t. 2 < length t) xs)" for xs
    by (induction xs) (simp_all add: toLowerCase_def)
  then show ?thesis
    by (simp add: queryTerms_def spec_queryTerms_def split_ws_toLowerCase)
qed

lemma str_includes_sublist: "str_includes s t \<longleftrightarrow> sublist t s"
  by (induction s) (auto simp: sublist_Cons_right)





subsection \<open>Automatic relevance judgments\<close>

lemma countMatches_foldl:
  "foldl (\<lambda>(matchCount, exactTitleMatch) term.
              (if str_includes a term then matchCount + 1 else matchCount,
               if str_includes b term then True else exactTitleMatch))
       (n, e) terms
   = (n + length (filter (str_includes a) terms), e \<or> list_ex (str_includes b) terms)"
  by (induction terms arbitrary: n e) auto

lemma countMatches_eq:
  "countMatches terms a b =
     (length (filter (str_includes a) terms), list_ex (str_includes b) terms)"
  by (simp add: countMatches_def countMatches_foldl)

lemma judgeProduct_spec:
  "judgeProduct (queryTerms q) p =
     \<lparr>j_productId = prod_id p, relevanceScore = spec_relevance q p\<rparr>"
proof -
  have s: "str_includes a = (\<lambda>t. sublist t a)" for a
    by (simp add: fun_eq_iff str_includes_sublist)
  show ?thesis
    unfolding queryTerms_spec
    by (auto simp: judgeProduct_def countMatches_eq spec_relevance_def Let_def s productText_def)
qed

text \<open>
  Claim C8. For every query and product list, \<^verbatim>\<open>generateAutoRelevanceJudgments\<close> gives each
  product, in order, the piecewise relevance of the specification (\<^const>\<open>spec_relevance\<close>),
  computed from the lowercased white-space tokens of the query of length above 2:
  3 when at least 0.8 of the query terms occur in the product text and some term occurs in
  the title, else 2 when at least 0.5 of them occur or some term occurs in the title, else
  1 when at least one occurs, else 0, and 0 when there are no query terms. The judgments
  are a function of the query and the products alone, so two runs agree.
\<close>

theorem generateAutoRelevanceJudgments_piecewise:
  "generateAutoRelevanceJudgments q ps =
     map (\<lambda>p. \<lparr>j_productId = prod_id p, relevanceScore = spec_relevance q p\<rparr>) ps"
  by (simp add: generateAutoRelevanceJudgments_def judgeProduct_spec)

text \<open>
  On the products of the repository's test and a query with a one-letter word, a
  capitalized word and a word in capitals, the terms are \<^verbatim>\<open>wireless\<close> and \<^verbatim>\<open>headphones\<close>.
\<close>

lemma test_terms: "spec_queryTerms ''A Wireless  HEADPHONES'' = [''wireless'', ''headphones'']"
  by code_simp

lemma test_relevance:
  "map (spec_relevance ''A Wireless  HEADPHONES'') testProducts = [3, 2, 0]"
  by code_simp

theorem generateAutoRelevanceJudgments_piecewise_witness:
  "map (\<lambda>j. (j_productId j, relevanceScore j))
     (generateAutoRelevanceJudgments ''A Wireless  HEADPHONES'' testProducts) = [(1, 3), (2, 2), (3, 0)]"
proof -
  have ids: "map prod_id testProducts = [1, 2, 3]"
    by (simp add: testProducts_def plainProduct_def)
  have "map (\<lambda>j. (j_productId j, relevanceScore j))
     (generateAutoRelevanceJudgments ''A Wireless  HEADPHONES'' testProducts)
     = zip (map prod_id testProducts) (map (spec_relevance ''A Wireless  HEADPHONES'') testProducts)"
    unfolding generateAutoRelevanceJudgments_piecewise
    by (simp add: zip_map_map comp_def zip_same_conv_map)
  then show ?thesis unfolding ids test_relevance by simp
qed

subsection \<open>Active ranking weights\<close>

lemma getActiveRankingWeights_insert:
  assumes "filter isActive (rankingWeightsTable db) = []"
  shows "getActiveRankingWeights (Some db) =
           (defaultWeights\<lparr>rw_id := rankingWeightsSeq db + 1\<rparr>,
            Some (insertRankingWeights db defaultWeights))"
proof -
  let ?row = "defaultWeights\<lparr>rw_id := rankingWeightsSeq db + 1\<rparr>"
  let ?db' = "insertRankingWeights db defaultWeights"
  have t: "rankingWeightsTable ?db' = rankingWeightsTable db @ [?row]"
    by (simp add: insertRankingWeights_def)
  have act: "filter isActive (rankingWeightsTable ?db') = [?row]"
    unfolding t using assms by (simp add: defaultWeights_def)
  have re: "getActiveRankingWeights (Some ?db') = (?row, Some ?db')"
    by (subst getActiveRankingWeights.simps) (simp only: act list.case)
  show ?thesis
    by (subst getActiveRankingWeights.simps) (simp only: assms list.case re)
qed

text \<open>
  Claim C10. When the database is reachable and holds no active ranking-weights row,
  \<^verbatim>\<open>getActiveRankingWeights\<close> inserts the default weights (0.50, 0.20, 0.15, 0.10, 0.05) as
  an active row and returns that row; the table grows by exactly that one row, and the
  re-read finds it and inserts nothing more. (That the recursion ends on every input is
  the termination proof of \<^const>\<open>getActiveRankingWeights\<close>.)
\<close>

theorem getActiveRankingWeights_materializes_defaults:
  assumes "filter isActive (rankingWeightsTable db) = []"
  shows "getActiveRankingWeights (Some db) =
           (defaultWeights\<lparr>rw_id := rankingWeightsSeq db + 1\<rparr>,
            Some (insertRankingWeights db defaultWeights))
         \<and> rankingWeightsTable (insertRankingWeights db defaultWeights) =
             rankingWeightsTable db @ [defaultWeights\<lparr>rw_id := rankingWeightsSeq db + 1\<rparr>]
         \<and> (let w = fst (getActiveRankingWeights (Some db))
            in (alpha w, beta w, gamma w, delta w, epsilon w) = (0.5, 0.2, 0.15, 0.1, 0.05)
               \<and> isActive w)
         \<and> getActiveRankingWeights (Some (insertRankingWeights db defaultWeights)) =
             (defaultWeights\<lparr>rw_id := rankingWeightsSeq db + 1\<rparr>,
              Some (insertRankingWeights db defaultWeights))"
proof -
  let ?row = "defaultWeights\<lparr>rw_id := rankingWeightsSeq db + 1\<rparr>"
  let ?db' = "insertRankingWeights db defaultWeights"
  have t: "rankingWeightsTable ?db' = rankingWeightsTable db @ [?row]"
    by (simp add: insertRankingWeights_def)
  have act: "filter isActive (rankingWeightsTable ?db') = [?row]"
    unfolding t using assms by (simp add: defaultWeights_def)
  have re: "getActiveRankingWeights (Some ?db') = (?row, Some ?db')"
    by (subst getActiveRankingWeights.simps) (simp only: act list.case)
  show ?thesis
    by (simp add: getActiveRankingWeights_insert[OF assms] t re Let_def)
       (simp add: defaultWeights_def)
qed

theorem getActiveRankingWeights_materializes_defaults_witness:
  "filter isActive (rankingWeightsTable emptyDb) = []
   \<and> getActiveRankingWeights (Some emptyDb) =
       (defaultWeights\<lparr>rw_id := 1\<rparr>,
        Some (emptyDb\<lparr>rankingWeightsTable := [defaultWeights\<lparr>rw_id := 1\<rparr>],
                      rankingWeightsSeq := 1\<rparr>))"
proof -
  have h: "filter isActive (rankingWeightsTable emptyDb) = []"
    by (simp add: emptyDb_def)
  from getActiveRankingWeights_materializes_defaults[OF h] show ?thesis
    using h by (simp add: emptyDb_def insertRankingWeights_def)
qed

subsection \<open>Order of the ranker's results\<close>

lemma subseq_applyFilters: "subseq (applyFilters opts xs) xs"
proof -
  have f: "subseq (filter P ys) ys" for P and ys :: "searchResult list" by simp
  show ?thesis
    unfolding applyFilters_def Let_def
    by (auto split: option.splits intro: subseq_order.order_trans[OF f] f)
qed

lemma product_scoreProduct [simp]: "product (scoreProduct now q w lo hi c) = fst c"
  by (simp add: scoreProduct_def Let_def)

lemma subseq_pool: "subseq (map product (scoredProducts now q opts w sims)) (map fst sims)"
proof -
  let ?xs = "map (scoreProduct now q w (minPriceInSet (map fst sims)) (maxPriceInSet (map fst sims))) sims"
  have s: "subseq (map product (applyFilters opts ?xs)) (map product ?xs)"
    by (rule subseq_map) (rule subseq_applyFilters)
  have e: "map product ?xs = map fst sims" by (simp add: comp_def)
  from s show ?thesis unfolding scoredProducts_def e .
qed

lemma rankScored_fields:
  "map (\<lambda>r. (product r, scores r, matchedTerms r)) (rankScored opts xs) =
   map (\<lambda>r. (product r, scores r, matchedTerms r))
     (take (opt_limit opts) (sort_key (\<lambda>r. - final (scores r)) (filter (\<lambda>r. final (scores r) \<ge> opt_minScore opts) xs)))"
proof -
  have "map (\<lambda>r. (product r, scores r, matchedTerms r)) (map (\<lambda>(index, result). result\<lparr>position := index + 1\<rparr>) (enumerate n zs))
      = map (\<lambda>r. (product r, scores r, matchedTerms r)) zs" for n and zs :: "searchResult list"
    by (induction zs arbitrary: n) auto
  then show ?thesis by (simp add: rankScored_def)
qed

lemma sorted_wrt_fields:
  assumes "map (\<lambda>r. (product r, scores r, matchedTerms r)) xs = map (\<lambda>r. (product r, scores r, matchedTerms r)) ys"
  shows "map (\<lambda>r. final (scores r)) xs = map (\<lambda>r. final (scores r)) ys"
proof -
  have "map (\<lambda>t. final (fst (snd t))) (map (\<lambda>r. (product r, scores r, matchedTerms r)) xs)
      = map (\<lambda>t. final (fst (snd t))) (map (\<lambda>r. (product r, scores r, matchedTerms r)) ys)"
    using assms by simp
  then show ?thesis by (simp add: comp_def)
qed

lemma rankScored_sorted:
  "sorted_wrt (\<lambda>a b. final (scores a) \<ge> final (scores b)) (rankScored opts xs)"
proof -
  let ?ys = "take (opt_limit opts) (sort_key (\<lambda>r. - final (scores r)) (filter (\<lambda>r. final (scores r) \<ge> opt_minScore opts) xs))"
  have "sorted (map (\<lambda>r. - final (scores r)) ?ys)"
    by (simp add: take_map[symmetric] sorted_wrt_take)
  then have "sorted_wrt (\<lambda>a b. final a \<ge> final b) (map scores ?ys)"
    by (simp add: sorted_wrt_map)
  moreover have "map scores (rankScored opts xs) = map scores ?ys"
  proof -
    have "map (\<lambda>t. fst (snd t)) (map (\<lambda>r. (product r, scores r, matchedTerms r)) (rankScored opts xs))
        = map (\<lambda>t. fst (snd t)) (map (\<lambda>r. (product r, scores r, matchedTerms r)) ?ys)"
      by (simp only: rankScored_fields)
    then show ?thesis by (simp add: comp_def)
  qed
  ultimately have "sorted_wrt (\<lambda>a b. final a \<ge> final b) (map scores (rankScored opts xs))" by simp
  then show ?thesis by (simp add: sorted_wrt_map)
qed

lemma rankScored_stable:
  "prefix (map product (filter (\<lambda>r. final (scores r) = s) (rankScored opts xs)))
          (map product (filter (\<lambda>r. final (scores r) = s) xs))"
proof -
  let ?f = "\<lambda>r. - final (scores r)"
  let ?Q = "\<lambda>r. final (scores r) = s"
  let ?P = "\<lambda>r. final (scores r) \<ge> opt_minScore opts"
  let ?ys = "take (opt_limit opts) (sort_key ?f (filter ?P xs))"
  let ?F = "\<lambda>r. (product r, scores r, matchedTerms r)"
  have a: "map product (filter ?Q zs) = map fst (filter (\<lambda>t. final (fst (snd t)) = s) (map ?F zs))" for zs
    by (induction zs) auto
  have 1: "map product (filter ?Q (rankScored opts xs)) = map product (filter ?Q ?ys)"
    by (simp only: a rankScored_fields)
  have "prefix ?ys (sort_key ?f (filter ?P xs))" by (rule take_is_prefix)
  then have 2: "prefix (filter ?Q ?ys) (filter ?Q (sort_key ?f (filter ?P xs)))"
    by (rule filter_mono_prefix)
  have q: "?Q = (\<lambda>r. ?f r = - s)" by auto
  have 3: "filter ?Q (sort_key ?f (filter ?P xs)) = filter ?Q (filter ?P xs)"
    by (subst q, subst q) (rule sort_key_stable)
  have 4: "filter ?Q (filter ?P xs) = (if s \<ge> opt_minScore opts then filter ?Q xs else [])"
    by (induction xs) auto
  have "prefix (filter ?Q ?ys) (filter ?Q xs)"
    using 2 unfolding 3 4 by (auto split: if_splits)
  then have "prefix (map product (filter ?Q ?ys)) (map product (filter ?Q xs))"
    by (rule map_mono_prefix)
  then show ?thesis by (simp only: 1)
qed

lemma fst_semanticSearch:
  "fst (semanticSearch now candidates q opts dbo) =
     rankScored opts
       (scoredProducts now q opts (fst (getActiveRankingWeights dbo))
          (candidateSimilarities (generateEmbedding q) candidates))"
  by (simp add: semanticSearch_def Let_def case_prod_unfold rankWithSimilarities_def)

lemma fst_candidateSimilarities:
  "map fst (candidateSimilarities qe candidates) = map fst candidates"
  by (simp add: candidateSimilarities_def comp_def case_prod_unfold)

text \<open>
  Claim C3, as the code has it. For every query, weights and candidate list, the final
  scores of the returned results do not increase along the list, and results of equal
  final score keep the order of the candidate list: for every score \<open>s\<close>, the returned
  products of score \<open>s\<close> are an initial part of the scored and filtered candidates of score
  \<open>s\<close>, and these follow the candidate list. The product id plays no part in the order.
\<close>

theorem semanticSearch_order:
  "(let results = fst (semanticSearch now candidates q opts dbo);
        pool = scoredProducts now q opts (fst (getActiveRankingWeights dbo))
                 (candidateSimilarities (generateEmbedding q) candidates)
    in sorted_wrt (\<lambda>a b. final (scores a) \<ge> final (scores b)) results
       \<and> prefix (map product (filter (\<lambda>r. final (scores r) = s) results))
                 (map product (filter (\<lambda>r. final (scores r) = s) pool))
       \<and> subseq (map product pool) (map fst candidates))"
  unfolding Let_def fst_semanticSearch
  using rankScored_sorted rankScored_stable
    subseq_pool[where sims="candidateSimilarities (generateEmbedding q) candidates",
                unfolded fst_candidateSimilarities]
  by blast

subsection \<open>Scenario S1 and the single-product catalog, evaluated\<close>

lemma s1_terms: "queryTerms s1_query = [''wireless'', ''bluetooth'', ''headphones'']"
  by code_simp

lemma s1_matchedA:
  "extractMatchedTerms s1_query (productText productA) = [''wireless'', ''bluetooth'', ''headphones'']"
  by code_simp

lemma s1_matchedB: "extractMatchedTerms s1_query (productText productB) = []"
  by code_simp

lemma productText_update [simp]:
  "productText (p\<lparr>prod_id := i\<rparr>) = productText p"
  "productText (p\<lparr>price := pr\<rparr>) = productText p"
  by (simp_all add: productText_def)

lemma s1_scoreA:
  assumes "alpha w = 0.5" "beta w = 0.2" "gamma w = 0.15" "delta w = 0.1" "epsilon w = 0.05"
  shows "scoreProduct s1_now s1_query w lo hi (productA, c) =
    \<lparr>product = productA,
     scores = \<lparr>final = 0.5 * max 0 (c + 0.5) + 0.2 * 0.96 + 0.15 * normalizePriceScore 329.99 lo hi
                        + 0.1 * 1 + 0.05 * 1,
               semantic = max 0 c, ratingScore = 0.96,
               priceScore = normalizePriceScore 329.99 lo hi, stockScore = 1, recencyScore = 1\<rparr>,
     matchedTerms = [''wireless'', ''bluetooth'', ''headphones''], position = 0\<rparr>"
  apply (simp add: scoreProduct_def Let_def s1_terms s1_matchedA assms)
  apply (simp add: productA_def normalizeRatingScore_def normalizeStockScore_def
       normalizeRecencyScore_def priceNumber_def s1_now_def)
  done

lemma s1_scoreB:
  assumes "alpha w = 0.5" "beta w = 0.2" "gamma w = 0.15" "delta w = 0.1" "epsilon w = 0.05"
  shows "scoreProduct s1_now s1_query w lo hi (productB\<lparr>prod_id := i, price := pr\<rparr>, c) =
    \<lparr>product = productB\<lparr>prod_id := i, price := pr\<rparr>,
     scores = \<lparr>final = 0.5 * max 0 c + 0.2 * 1
                        + 0.15 * normalizePriceScore (case pr of None \<Rightarrow> 0 | Some x \<Rightarrow> x) lo hi
                        + 0.1 * 1 + 0.05 * 1,
               semantic = max 0 c, ratingScore = 1,
               priceScore = normalizePriceScore (case pr of None \<Rightarrow> 0 | Some x \<Rightarrow> x) lo hi,
               stockScore = 1, recencyScore = 1\<rparr>,
     matchedTerms = [], position = 0\<rparr>"
  apply (simp add: scoreProduct_def Let_def s1_terms s1_matchedB assms)
  apply (simp add: productB_def normalizeRatingScore_def normalizeStockScore_def
       normalizeRecencyScore_def priceNumber_def s1_now_def)
  done

lemma productB_as_update: "productB = productB\<lparr>prod_id := 2, price := Some 329.99\<rparr>"
  by (simp add: productB_def)

lemma defaultWeights_values:
  "alpha defaultWeights = 0.5" "beta defaultWeights = 0.2" "gamma defaultWeights = 0.15"
  "delta defaultWeights = 0.1" "epsilon defaultWeights = 0.05"
  by (simp_all add: defaultWeights_def)

lemmas s1_scoreA_default = s1_scoreA[OF defaultWeights_values]
lemmas s1_scoreB_default = s1_scoreB[OF defaultWeights_values]

lemma s1_result:
  "rankWithSimilarities s1_now s1_query s1_opts defaultWeights [(productA, 0.88), (productB, 0.05)] =
   [\<lparr>product = productA,
     scores = \<lparr>final = 1.032, semantic = 0.88, ratingScore = 0.96,
               priceScore = 0, stockScore = 1, recencyScore = 1\<rparr>,
     matchedTerms = [''wireless'', ''bluetooth'', ''headphones''], position = 1\<rparr>,
    \<lparr>product = productB,
     scores = \<lparr>final = 0.375, semantic = 0.05, ratingScore = 1,
               priceScore = 0, stockScore = 1, recencyScore = 1\<rparr>,
     matchedTerms = [], position = 2\<rparr>]"
proof -
  have b: "minPriceInSet [productA, productB] = 0" "maxPriceInSet [productA, productB] = 329.99"
    by (simp_all add: minPriceInSet_def maxPriceInSet_def candidatePrices_def priceNumber_def
          productA_def productB_def)
  have sb: "scoreProduct s1_now s1_query defaultWeights lo hi (productB, c) =
      \<lparr>product = productB,
       scores = \<lparr>final = 0.5 * max 0 c + 0.2 * 1 + 0.15 * normalizePriceScore 329.99 lo hi + 0.1 * 1 + 0.05 * 1,
               semantic = max 0 c, ratingScore = 1,
               priceScore = normalizePriceScore 329.99 lo hi,
               stockScore = 1, recencyScore = 1\<rparr>,
       matchedTerms = [], position = 0\<rparr>" for lo hi c
    apply (simp add: scoreProduct_def Let_def s1_terms s1_matchedB defaultWeights_values)
    apply (simp add: productB_def normalizeRatingScore_def normalizeStockScore_def
         normalizeRecencyScore_def priceNumber_def s1_now_def)
    done
  show ?thesis
    by (simp add: rankWithSimilarities_def scoredProducts_def b s1_scoreA_default sb
        applyFilters_def s1_opts_def rankScored_def normalizePriceScore_def enumerate_eq_zip)
qed

lemma rankScored_single:
  assumes "opt_minScore opts \<le> final (scores x)" "0 < opt_limit opts"
  shows "rankScored opts [x] = [x\<lparr>position := 1\<rparr>]"
proof -
  from assms(2) obtain n where n: "opt_limit opts = Suc n" by (cases "opt_limit opts") auto
  show ?thesis using assms(1) by (simp add: rankScored_def n)
qed

lemma s1_single:
  "\<exists>c. fst (semanticSearch s1_now [(productA, None)] s1_query s1_opts (Some singleDb)) =
     [\<lparr>product = productA,
       scores = \<lparr>final = 0.5 * max 0 (c + 0.5) + 0.2 * 0.96 + 0.15 * 0 + 0.1 * 1 + 0.05 * 1,
                 semantic = max 0 c, ratingScore = 0.96, priceScore = 0, stockScore = 1,
                 recencyScore = 1\<rparr>,
       matchedTerms = [''wireless'', ''bluetooth'', ''headphones''], position = 1\<rparr>]"
proof -
  define c where "c = cosineSimilarity (generateEmbedding s1_query)
                        (generateDeterministicEmbedding (productText productA))"
  define w where "w = fst (getActiveRankingWeights (Some singleDb))"
  have "filter isActive (rankingWeightsTable singleDb) = []"
    by (simp add: singleDb_def emptyDb_def)
  then have "w = defaultWeights\<lparr>rw_id := rankingWeightsSeq singleDb + 1\<rparr>"
    unfolding w_def by (simp add: getActiveRankingWeights_insert)
  then have wv: "alpha w = 0.5" "beta w = 0.2" "gamma w = 0.15" "delta w = 0.1" "epsilon w = 0.05"
    by (simp_all add: defaultWeights_def)
  have b: "minPriceInSet [productA] = 0" "maxPriceInSet [productA] = 329.99"
    by (simp_all add: minPriceInSet_def maxPriceInSet_def candidatePrices_def priceNumber_def
          productA_def)
  have np: "normalizePriceScore 329.99 0 329.99 = 0"
    by (simp add: normalizePriceScore_def)
  define x where "x = scoreProduct s1_now s1_query w 0 329.99 (productA, c)"
  have xv: "x = \<lparr>product = productA,
       scores = \<lparr>final = 0.5 * max 0 (c + 0.5) + 0.2 * 0.96 + 0.15 * 0 + 0.1 * 1 + 0.05 * 1,
                 semantic = max 0 c, ratingScore = 0.96, priceScore = 0, stockScore = 1,
                 recencyScore = 1\<rparr>,
       matchedTerms = [''wireless'', ''bluetooth'', ''headphones''], position = 0\<rparr>"
    unfolding x_def s1_scoreA[OF wv] np by simp
  have pool: "scoredProducts s1_now s1_query s1_opts w [(productA, c)] = [x]"
    unfolding x_def by (simp add: scoredProducts_def b applyFilters_def s1_opts_def)
  have ge: "opt_minScore s1_opts \<le> final (scores x)"
    unfolding xv by (simp add: s1_opts_def max_def)
  have lim: "0 < opt_limit s1_opts" by (simp add: s1_opts_def)
  have "fst (semanticSearch s1_now [(productA, None)] s1_query s1_opts (Some singleDb)) =
      [x\<lparr>position := 1\<rparr>]"
    unfolding fst_semanticSearch w_def[symmetric]
    by (simp add: candidateSimilarities_def c_def[symmetric] pool rankScored_single[OF ge lim])
  then show ?thesis unfolding xv by auto
qed

text \<open>
  Claim C3 as stated fails on the tie-break: two candidates that differ in the id only,
  listed with id 7 before id 4 and given equal cosines, come back with equal final scores
  and in that order.
\<close>

theorem equal_scores_keep_candidate_order:
  "(let rs = rankWithSimilarities s1_now s1_query s1_opts defaultWeights
               [(twinFirst, 0.5), (twinSecond, 0.5)]
    in map (\<lambda>r. prod_id (product r)) rs = [7, 4]
       \<and> final (scores (rs ! 0)) = final (scores (rs ! 1)))"
proof -
  have b: "minPriceInSet [twinFirst, twinSecond] = 0" "maxPriceInSet [twinFirst, twinSecond] = 329.99"
    by (simp_all add: minPriceInSet_def maxPriceInSet_def candidatePrices_def priceNumber_def
          productB_def twinFirst_def twinSecond_def)
  have t: "twinFirst = productB\<lparr>prod_id := 7, price := Some 329.99\<rparr>"
      "twinSecond = productB\<lparr>prod_id := 4, price := Some 329.99\<rparr>"
    by (simp_all add: twinFirst_def twinSecond_def productB_def)
  show ?thesis
    unfolding Let_def
    apply (simp add: rankWithSimilarities_def scoredProducts_def b)
    apply (simp add: t s1_scoreB_default
        applyFilters_def s1_opts_def rankScored_def normalizePriceScore_def enumerate_eq_zip)
    done
qed



theorem semanticSearch_order_witness:
  "(let rs = fst (semanticSearch s1_now [(productA, None)] s1_query s1_opts (Some singleDb))
    in map product rs = [productA]
       \<and> sorted_wrt (\<lambda>a b. final (scores a) \<ge> final (scores b)) rs)"
proof -
  let ?rs = "fst (semanticSearch s1_now [(productA, None)] s1_query s1_opts (Some singleDb))"
  from s1_single obtain c where rs: "?rs =
     [\<lparr>product = productA,
       scores = \<lparr>final = 0.5 * max 0 (c + 0.5) + 0.2 * 0.96 + 0.15 * 0 + 0.1 * 1 + 0.05 * 1,
                 semantic = max 0 c, ratingScore = 0.96, priceScore = 0, stockScore = 1,
                 recencyScore = 1\<rparr>,
       matchedTerms = [''wireless'', ''bluetooth'', ''headphones''], position = 1\<rparr>]" ..
  have p: "map product ?rs = [productA]" unfolding rs by simp
  from semanticSearch_order[of s1_now "[(productA, None)]" s1_query s1_opts "Some singleDb" 0]
  have "sorted_wrt (\<lambda>a b. final (scores a) \<ge> final (scores b)) ?rs"
    unfolding Let_def by blast
  with p show ?thesis unfolding Let_def by simp
qed


subsection \<open>Price sub-score\<close>

lemma rankScored_member:
  assumes "r \<in> set (rankScored opts xs)"
  shows "\<exists>x \<in> set xs. product r = product x \<and> scores r = scores x \<and> matchedTerms r = matchedTerms x"
proof -
  let ?F = "\<lambda>r. (product r, scores r, matchedTerms r)"
  let ?ys = "take (opt_limit opts) (sort_key (\<lambda>r. - final (scores r)) (filter (\<lambda>r. final (scores r) \<ge> opt_minScore opts) xs))"
  from assms have "?F r \<in> set (map ?F (rankScored opts xs))" by simp
  then have "?F r \<in> set (map ?F ?ys)" by (simp only: rankScored_fields)
  then obtain x where x: "x \<in> set ?ys" "?F r = ?F x" by auto
  from x(1) have "x \<in> set xs" by (auto dest: in_set_takeD)
  with x(2) show ?thesis by auto
qed

lemma set_applyFilters: "set (applyFilters opts xs) \<subseteq> set xs"
  unfolding applyFilters_def Let_def by (auto split: option.splits)

lemma scoredProducts_member:
  assumes "x \<in> set (scoredProducts now q opts w sims)"
  shows "\<exists>c \<in> set sims. x = scoreProduct now q w (minPriceInSet (map fst sims)) (maxPriceInSet (map fst sims)) c"
  using assms set_applyFilters unfolding scoredProducts_def by fastforce

text \<open>
  The bounds of the price normalization: \<^verbatim>\<open>Math.min(...prices, 0)\<close> over positive prices is 0
  whatever the candidates are, and \<^verbatim>\<open>Math.max(...prices, 1)\<close> is at least 1.
\<close>

lemma fold_min_zero: "\<forall>x \<in> set xs. 0 < x \<Longrightarrow> fold min xs (0::real) = 0"
  by (induction xs) (simp_all add: min_def)

lemma fold_max_ge: "a \<le> fold max xs (a::real)"
proof (induction xs arbitrary: a)
  case Nil
  show ?case by simp
next
  case (Cons x xs)
  have "a \<le> max x a" by simp
  also have "\<dots> \<le> fold max xs (max x a)" by (rule Cons.IH)
  finally show ?case by simp
qed

lemma minPriceInSet_zero: "minPriceInSet ps = 0"
  unfolding minPriceInSet_def candidatePrices_def by (rule fold_min_zero) simp

lemma maxPriceInSet_ge_1: "1 \<le> maxPriceInSet ps"
  unfolding maxPriceInSet_def by (rule fold_max_ge)

text \<open>
  So every price sub-score the ranker returns is \<open>1 - p / hi\<close>, with \<open>p\<close> the product's price
  (0 when unknown) and \<open>hi\<close> the upper bound; the branch of \<^verbatim>\<open>normalizePriceScore\<close> for
  coinciding bounds is never taken.
\<close>

lemma semanticSearch_priceScore_code:
  assumes "r \<in> set (fst (semanticSearch now candidates q opts dbo))"
  shows "priceScore (scores r) =
     1 - (case price (product r) of None \<Rightarrow> 0 | Some x \<Rightarrow> x) / maxPriceInSet (map fst candidates)"
proof -
  let ?sims = "candidateSimilarities (generateEmbedding q) candidates"
  let ?w = "fst (getActiveRankingWeights dbo)"
  from assms obtain x where x: "x \<in> set (scoredProducts now q opts ?w ?sims)"
      "product r = product x" "scores r = scores x"
    unfolding fst_semanticSearch by (blast dest: rankScored_member)
  from scoredProducts_member[OF x(1)] obtain c where
    c: "x = scoreProduct now q ?w (minPriceInSet (map fst candidates)) (maxPriceInSet (map fst candidates)) c"
    unfolding fst_candidateSimilarities by blast
  have "priceScore (scores x) = normalizePriceScore (priceNumber (product x)) 0 (maxPriceInSet (map fst candidates))"
    unfolding c minPriceInSet_zero by (simp add: scoreProduct_def Let_def)
  moreover have "maxPriceInSet (map fst candidates) \<noteq> 0"
    using maxPriceInSet_ge_1[of "map fst candidates"] by simp
  ultimately show ?thesis
    by (simp add: x(2,3) normalizePriceScore_def priceNumber_def)
qed

lemma price_two_products:
  "map (\<lambda>r. (product r, priceScore (scores r)))
     (rankWithSimilarities s1_now s1_query s1_opts defaultWeights
        [(cheapProduct, 0.05), (dearProduct, 0.05)])
   = [(cheapProduct, 0.5), (dearProduct, 0)]"
proof -
  have b: "maxPriceInSet [cheapProduct, dearProduct] = 20"
    by (simp add: maxPriceInSet_def candidatePrices_def priceNumber_def
          productB_def cheapProduct_def dearProduct_def)
  show ?thesis
    unfolding cheapProduct_def dearProduct_def
    by (simp add: rankWithSimilarities_def scoredProducts_def minPriceInSet_zero
        b[unfolded cheapProduct_def dearProduct_def] s1_scoreB_default
        applyFilters_def s1_opts_def rankScored_def normalizePriceScore_def enumerate_eq_zip)
qed

lemma price_single_product:
  "map (\<lambda>r. (product r, priceScore (scores r)))
     (rankWithSimilarities s1_now s1_query s1_opts defaultWeights [(productA, 0.88)])
   = [(productA, 0)]"
proof -
  have b: "maxPriceInSet [productA] = 329.99"
    by (simp add: maxPriceInSet_def candidatePrices_def priceNumber_def productA_def)
  show ?thesis
    by (simp add: rankWithSimilarities_def scoredProducts_def minPriceInSet_zero b s1_scoreA_default
        applyFilters_def s1_opts_def rankScored_def normalizePriceScore_def enumerate_eq_zip)
qed

lemma price_unknown_product:
  "map (\<lambda>r. (product r, priceScore (scores r)))
     (rankWithSimilarities s1_now s1_query s1_opts defaultWeights
        [(productA, 0.88), (productNoPrice, 0.05)])
   = [(productA, 0), (productNoPrice, 1)]"
proof -
  have b: "maxPriceInSet [productA, productNoPrice] = 329.99"
    by (simp add: maxPriceInSet_def candidatePrices_def priceNumber_def
          productA_def productB_def productNoPrice_def)
  show ?thesis
    unfolding productNoPrice_def
    by (simp add: rankWithSimilarities_def scoredProducts_def minPriceInSet_zero
        b[unfolded productNoPrice_def] s1_scoreA_default s1_scoreB_default
        applyFilters_def s1_opts_def rankScored_def normalizePriceScore_def enumerate_eq_zip)
qed

text \<open>The same results with the specification's value beside the code's.\<close>

lemma with_spec:
  "map (\<lambda>r. (prod_id (product r), priceScore (scores r), spec_priceScore cs (product r))) rs =
   map (\<lambda>(p, s). (prod_id p, s, spec_priceScore cs p)) (map (\<lambda>r. (product r, priceScore (scores r))) rs)"
  by simp

lemma spec_price_single:
  "spec_priceScore [cheapProduct, dearProduct] cheapProduct = 1"
  "spec_priceScore [cheapProduct, dearProduct] dearProduct = 0"
  "spec_priceScore [productA] productA = 0.5"
  "spec_priceScore [productA, productNoPrice] productA = 0"
  "spec_priceScore [productA, productNoPrice] productNoPrice = 0.5"
  by (simp_all add: spec_priceScore_def cheapProduct_def dearProduct_def productNoPrice_def
        productA_def productB_def)

lemma example_ids:
  "prod_id cheapProduct = 8" "prod_id dearProduct = 9" "prod_id productA = 1" "prod_id productNoPrice = 3"
  by (simp_all add: cheapProduct_def dearProduct_def productNoPrice_def productA_def)

text \<open>
  Claim C2 against the code. The lower bound the ranker computes is 0 for every candidate
  list, not the lowest price, and the upper bound is at least 1. The triples below give
  the product id, the price sub-score of the code and the one of the specification
  (\<^const>\<open>spec_priceScore\<close>), the cosines being given: of two candidates priced 10 and 20 the
  cheaper one scores 0.5, where min-max normalization over the candidate set, as the claim
  and the comment of \<^verbatim>\<open>normalizePriceScore\<close> have it, gives 1; a product alone in its candidate
  set scores 0, not 0.5; and a product of unknown price scores 1, not 0.5.
\<close>

theorem price_bounds_ignore_minimum:
  "minPriceInSet ps = 0 \<and> 1 \<le> maxPriceInSet ps
   \<and> map (\<lambda>r. (prod_id (product r), priceScore (scores r),
                spec_priceScore [cheapProduct, dearProduct] (product r)))
        (rankWithSimilarities s1_now s1_query s1_opts defaultWeights
           [(cheapProduct, 0.05), (dearProduct, 0.05)])
      = [(8, 0.5, 1), (9, 0, 0)]
   \<and> map (\<lambda>r. (prod_id (product r), priceScore (scores r), spec_priceScore [productA] (product r)))
        (rankWithSimilarities s1_now s1_query s1_opts defaultWeights [(productA, 0.88)])
      = [(1, 0, 0.5)]
   \<and> map (\<lambda>r. (prod_id (product r), priceScore (scores r),
                spec_priceScore [productA, productNoPrice] (product r)))
        (rankWithSimilarities s1_now s1_query s1_opts defaultWeights
           [(productA, 0.88), (productNoPrice, 0.05)])
      = [(1, 0, 0), (3, 1, 0.5)]"
  unfolding with_spec price_two_products price_single_product price_unknown_product
  using minPriceInSet_zero[of ps] maxPriceInSet_ge_1[of ps]
  by (simp add: spec_price_single example_ids)



subsection \<open>Scenario S1\<close>

text \<open>
  Claim C1, as the code has it. In scenario S1 (default weights, cosines 0.88 and 0.05,
  both products in stock with 500 units and 30 days old) the ranker puts A first and B
  second, A's matched terms are exactly wireless, bluetooth, headphones, and the final
  scores are the weighted sums with the boosted semantic term uncapped:
  \<open>0.5 (0.88 + 0.5) + 0.2 0.96 + 0.15 p + 0.1 + 0.05\<close> for A and
  \<open>0.5 0.05 + 0.2 + 0.15 p + 0.1 + 0.05\<close> for B, where \<open>p\<close> is the price sub-score the two
  equally priced products share.
\<close>

theorem scenario_S1_scores:
  "(let rs = rankWithSimilarities s1_now s1_query s1_opts defaultWeights
               [(productA, 0.88), (productB, 0.05)]
    in map product rs = [productA, productB]
       \<and> map position rs = [1, 2]
       \<and> matchedTerms (rs ! 0) = [''wireless'', ''bluetooth'', ''headphones'']
       \<and> final (scores (rs ! 0)) =
           0.5 * (0.88 + 0.5) + 0.2 * 0.96 + 0.15 * priceScore (scores (rs ! 0)) + 0.1 * 1 + 0.05 * 1
       \<and> final (scores (rs ! 1)) =
           0.5 * 0.05 + 0.2 * 1 + 0.15 * priceScore (scores (rs ! 1)) + 0.1 * 1 + 0.05 * 1
       \<and> priceScore (scores (rs ! 0)) = priceScore (scores (rs ! 1))
       \<and> final (scores (rs ! 0)) > final (scores (rs ! 1)))"
  unfolding s1_result Let_def by simp


text \<open>
  Claim C1 as stated fails on the numbers: A's final score is 1.032 and B's is 0.375, not
  0.917 and 0.450.
\<close>

theorem scenario_S1_scores_differ:
  "(let rs = rankWithSimilarities s1_now s1_query s1_opts defaultWeights
               [(productA, 0.88), (productB, 0.05)]
    in map (\<lambda>r. (prod_id (product r), final (scores r))) rs = [(1, 1.032), (2, 0.375)]
       \<and> final (scores (rs ! 0)) \<noteq> 0.917 \<and> final (scores (rs ! 1)) \<noteq> 0.450)"
  unfolding s1_result Let_def by (simp add: productA_def productB_def)


subsection \<open>Session recommendations: scenario S4\<close>

lemma s4_cos:
  "cosineSimilarity e_cX e_p1 = 0.9" "cosineSimilarity e_cX e_p2 = 0.6"
  "cosineSimilarity e_cY e_p1 = 0.1" "cosineSimilarity e_cY e_p2 = 0.1"
  by (simp_all add: cosineSimilarity_def e_p1_def e_p2_def e_cX_def e_cY_def)

lemma s4_interactions:
  "getSessionInteractions (Some (s4_db e1 e2 eX eY)) ''s4'' 20 =
    [\<lparr>i_sessionId = ''s4'', i_productId = 1, i_interactionType = view, i_createdAt = 2000\<rparr>,
     \<lparr>i_sessionId = ''s4'', i_productId = 2, i_interactionType = add_to_cart, i_createdAt = 1000\<rparr>]"
  by (simp add: getSessionInteractions_def s4_db_def emptyDb_def)

lemma s4_productScores:
  "productScoresOf (getSessionInteractions (Some (s4_db e1 e2 eX eY)) ''s4'' 20) =
     [(1, (2, view)), (2, (6, add_to_cart))]"
  unfolding s4_interactions
  by (simp add: productScoresOf_def scoreInteraction_def interactionWeights_def enumerate_eq_zip upt_rec)


lemma s4_result:
  assumes "cosineSimilarity eX e1 = 0.9" "cosineSimilarity eX e2 = 0.6"
          "cosineSimilarity eY e1 = 0.1" "cosineSimilarity eY e2 = 0.1"
  shows "getSessionRecommendations (Some (s4_db e1 e2 eX eY)) ''s4'' 8 excl =
     take 8 (sort_key (\<lambda>r. - score r)
       (List.map_filter (\<lambda>r. if prod_id (rec_product r) \<in> set excl then None else Some r)
       [\<lparr>rec_product = plainProduct 3 ''cX'', score = 2.7,
         reason = ''Very similar to items you viewed'', sourceProductId = Some 1\<rparr>,
        \<lparr>rec_product = plainProduct 4 ''cY'', score = 0.4,
         reason = ''You might like this'', sourceProductId = Some 1\<rparr>]))"
proof -
  let ?db = "Some (s4_db e1 e2 eX eY)"
  have ie: "interactedEmbeddingsOf ?db [(1, (2, view)), (2, (6, add_to_cart))] = [(1, e1, 2), (2, e2, 6)]"
    by (simp add: interactedEmbeddingsOf_def getEmbeddingByProductId_def s4_db_def List.map_filter_simps)
  have ap: "getProductsWithEmbeddings ?db =
     [(plainProduct 1 ''p1'', e1), (plainProduct 2 ''p2'', e2), (plainProduct 3 ''cX'', eX), (plainProduct 4 ''cY'', eY)]"
    by (simp add: getProductsWithEmbeddings_def s4_db_def List.map_filter_simps plainProduct_def)
  have mX: "matchInteracted eX [(1, e1, 2), (2, e2, 6)] = (5.4, 1, 0.9)"
    by (simp add: matchInteracted_def assms Let_def)
  have mY: "matchInteracted eY [(1, e1, 2), (2, e2, 6)] = (0.8, 1, 0.1)"
    by (simp add: matchInteracted_def assms Let_def)
  have ids: "prod_id (plainProduct i t) = i" for i t by (simp add: plainProduct_def)
  have rc: "recommendCandidate (excl @ [1, 2]) [(1, (2, view)), (2, (6, add_to_cart))] [(1, e1, 2), (2, e2, 6)] (plainProduct 1 ''p1'', e1) = None"
      "recommendCandidate (excl @ [1, 2]) [(1, (2, view)), (2, (6, add_to_cart))] [(1, e1, 2), (2, e2, 6)] (plainProduct 2 ''p2'', e2) = None"
    by (simp_all add: recommendCandidate_def ids)
  have rX: "recommendCandidate (excl @ [1, 2]) [(1, (2, view)), (2, (6, add_to_cart))] [(1, e1, 2), (2, e2, 6)] (plainProduct 3 ''cX'', eX)
      = (if 3 \<in> set excl then None else Some \<lparr>rec_product = plainProduct 3 ''cX'', score = 2.7,
         reason = ''Very similar to items you viewed'', sourceProductId = Some 1\<rparr>)"
    by (simp add: recommendCandidate_def ids mX generateRecommendationReason_def)
  have rY: "recommendCandidate (excl @ [1, 2]) [(1, (2, view)), (2, (6, add_to_cart))] [(1, e1, 2), (2, e2, 6)] (plainProduct 4 ''cY'', eY)
      = (if 4 \<in> set excl then None else Some \<lparr>rec_product = plainProduct 4 ''cY'', score = 0.4,
         reason = ''You might like this'', sourceProductId = Some 1\<rparr>)"
    by (simp add: recommendCandidate_def ids mY generateRecommendationReason_def)
  show ?thesis
    unfolding getSessionRecommendations_def Let_def s4_productScores
    by (simp add: s4_interactions ie ap List.map_filter_simps rc rX rY ids)
qed

text \<open>
  Claim C6, as the code has it. In scenario S4 the interaction scores are 2 for p1 (view,
  recency boost 2) and 6 for p2 (add to cart, recency boost 1.5), the affinities are 2.7
  for cX and 0.4 for cY, both are kept and cX ranks first. The best match of a candidate
  is the interacted product of highest raw cosine, which for cX is p1 (0.9 against 0.6),
  a view: the reason of cX is \<^verbatim>\<open>Very similar to items you viewed\<close>, with source p1.
\<close>

theorem scenario_S4_recommendations:
  assumes "cosineSimilarity eX e1 = 0.9" "cosineSimilarity eX e2 = 0.6"
          "cosineSimilarity eY e1 = 0.1" "cosineSimilarity eY e2 = 0.1"
  shows "productScoresOf (getSessionInteractions (Some (s4_db e1 e2 eX eY)) ''s4'' 20) =
           [(1, (2, view)), (2, (6, add_to_cart))]
         \<and> map (\<lambda>r. (prod_id (rec_product r), score r, reason r, sourceProductId r))
             (getSessionRecommendations (Some (s4_db e1 e2 eX eY)) ''s4'' 8 []) =
           [(3, 2.7, ''Very similar to items you viewed'', Some 1),
            (4, 0.4, ''You might like this'', Some 1)]"
  unfolding s4_result[OF assms] s4_productScores
  by (simp add: List.map_filter_simps plainProduct_def)


theorem scenario_S4_recommendations_witness:
  "cosineSimilarity e_cX e_p1 = 0.9 \<and> cosineSimilarity e_cX e_p2 = 0.6
   \<and> cosineSimilarity e_cY e_p1 = 0.1 \<and> cosineSimilarity e_cY e_p2 = 0.1
   \<and> map (\<lambda>r. (prod_id (rec_product r), score r, reason r, sourceProductId r))
       (getSessionRecommendations (Some (s4_db e_p1 e_p2 e_cX e_cY)) ''s4'' 8 []) =
     [(3, 2.7, ''Very similar to items you viewed'', Some 1),
      (4, 0.4, ''You might like this'', Some 1)]"
  using scenario_S4_recommendations[OF s4_cos] s4_cos by simp


text \<open>
  Claim C6 as stated fails on the reason: for cX it is not \<^verbatim>\<open>Similar to items in your cart\<close>,
  and the source product is p1, not p2.
\<close>

theorem scenario_S4_reason_is_viewed:
  "(let rs = getSessionRecommendations (Some (s4_db e_p1 e_p2 e_cX e_cY)) ''s4'' 8 []
    in prod_id (rec_product (rs ! 0)) = 3
       \<and> reason (rs ! 0) = ''Very similar to items you viewed''
       \<and> reason (rs ! 0) \<noteq> ''Similar to items in your cart''
       \<and> sourceProductId (rs ! 0) = Some 1)"
  unfolding s4_result[OF s4_cos] Let_def
  by (simp add: List.map_filter_simps plainProduct_def)


subsection \<open>Session recommendations: excluded products\<close>

















text \<open>
  When none of the interacted products has a stored embedding the function returns the
  cold-start list, which is filtered by \<^verbatim>\<open>excludeProductIds\<close> only: the featured product
  the session viewed comes back.
\<close>

lemma coldStart_returns_interacted:
  "(let rs = getSessionRecommendations (Some featuredDb) ''f'' 8 []
    in map (\<lambda>r. (prod_id (rec_product r), reason r)) rs = [(1, ''Popular product'')]
       \<and> map i_productId (getSessionInteractions (Some featuredDb) ''f'' 20) = [1])"
proof -
  have i: "getSessionInteractions (Some featuredDb) ''f'' 20 =
      [\<lparr>i_sessionId = ''f'', i_productId = 1, i_interactionType = view, i_createdAt = 1\<rparr>]"
    by (simp add: getSessionInteractions_def featuredDb_def emptyDb_def)
  have ps: "productScoresOf (getSessionInteractions (Some featuredDb) ''f'' 20) = [(1, (2, view))]"
    unfolding i
    by (simp add: productScoresOf_def scoreInteraction_def interactionWeights_def enumerate_eq_zip)
  have ie: "interactedEmbeddingsOf (Some featuredDb) [(1, (2, view))] = []"
    by (simp add: interactedEmbeddingsOf_def getEmbeddingByProductId_def featuredDb_def emptyDb_def
          List.map_filter_simps)
  have cs: "getColdStartRecommendations (Some featuredDb) 8 [] =
      [\<lparr>rec_product = (plainProduct 1 ''p1'')\<lparr>isFeatured := True\<rparr>, score = 1,
        reason = ''Popular product'', sourceProductId = None\<rparr>]"
    by (simp add: getColdStartRecommendations_def getFeaturedProducts_def featuredDb_def emptyDb_def
          plainProduct_def)
  show ?thesis
    unfolding getSessionRecommendations_def Let_def ps
    by (simp add: i ie cs plainProduct_def)
qed


subsection \<open>Deterministic embedding\<close>

lemma foldl_enumerate_sum:
  "foldl (\<lambda>value (j, c). value + f j c) a (enumerate n xs) = a + (\<Sum>k<length xs. f (n + k) (xs ! k))"
proof (induction xs arbitrary: a n)
  case Nil
  then show ?case by simp
next
  case (Cons x xs)
  have "(\<Sum>k<Suc (length xs). f (n + k) ((x # xs) ! k)) = f n x + (\<Sum>k<length xs. f (Suc n + k) (xs ! k))"
    by (subst sum.lessThan_Suc_shift) simp
  with Cons show ?case by (simp add: add.assoc)
qed

lemma embeddingComponent_spec: "embeddingComponent t i = spec_component t i"
proof -
  have "foldl (\<lambda>value (j, c). value + real (of_char c) * sin (real ((i + 1) * (j + 1)) * 0.01)) 0 (enumerate 0 t)
      = (\<Sum>k<length t. real (of_char (t ! k)) * sin (real ((i + 1) * (k + 1)) * 0.01))"
    using foldl_enumerate_sum[where f="\<lambda>j c. real (of_char c) * sin (real ((i + 1) * (j + 1)) * 0.01)" and a=0 and n=0 and xs=t]
    by simp
  moreover have "real ((i + 1) * (k + 1)) * 0.01 = 0.01 * real (i + 1) * real (k + 1)" for k
    by (simp add: algebra_simps)
  ultimately show ?thesis
    by (simp only: embeddingComponent_def spec_component_def mult.commute[of _ "0.001"])
qed

lemma foldl_squares: "foldl (\<lambda>sum val. sum + val * val) a v = a + (\<Sum>x\<leftarrow>v. x\<^sup>2)"
  for a :: real
  by (induction v arbitrary: a) (simp_all add: power2_eq_square algebra_simps)

lemma normalizeVector_l2norm:
  "normalizeVector v = (if l2norm v = 0 then v else map (\<lambda>val. val / l2norm v) v)"
  by (simp add: normalizeVector_def l2norm_def foldl_squares Let_def)

lemma sum_squares_nonneg: "0 \<le> (\<Sum>x\<leftarrow>v. x\<^sup>2)" for v :: vec
  by (induction v) simp_all

lemma l2norm_scaled:
  assumes "l2norm v \<noteq> 0"
  shows "l2norm (map (\<lambda>val. val / l2norm v) v) = 1"
proof -
  let ?m = "l2norm v"
  have m2: "?m\<^sup>2 = (\<Sum>x\<leftarrow>v. x\<^sup>2)"
    by (simp add: l2norm_def sum_squares_nonneg)
  have "(\<Sum>x\<leftarrow>map (\<lambda>val. val / m) w. x\<^sup>2) = (\<Sum>x\<leftarrow>w. x\<^sup>2) / m\<^sup>2" for m :: real and w
    by (induction w) (simp_all add: power_divide add_divide_distrib comp_def)
  then have "(\<Sum>x\<leftarrow>map (\<lambda>val. val / ?m) v. x\<^sup>2) = (\<Sum>x\<leftarrow>v. x\<^sup>2) / ?m\<^sup>2" .
  also have "\<dots> = ?m\<^sup>2 / ?m\<^sup>2" by (simp only: m2)
  also have "\<dots> = 1" using assms by simp
  finally show ?thesis by (simp add: l2norm_def)
qed

text \<open>
  Claim C9, as the code has it. For every text the deterministic embedding has dimension
  384 and is the normalization of the reference construction on the lowercased text (a
  function of the text alone, hence stable). Its Euclidean norm is 1 whenever the
  unnormalized vector is not the zero vector; when it is the zero vector, as for the empty
  text, \<^verbatim>\<open>normalizeVector\<close> returns it unchanged and the norm is 0.
\<close>

theorem generateDeterministicEmbedding_norm:
  "length (generateDeterministicEmbedding txt) = 384
   \<and> generateDeterministicEmbedding txt =
       normalizeVector (map (spec_component (toLowerCase txt)) [0..<384])
   \<and> l2norm (generateDeterministicEmbedding txt) =
       (if l2norm (map (spec_component (toLowerCase txt)) [0..<384]) = 0 then 0 else 1)"
proof -
  let ?raw = "map (spec_component (toLowerCase txt)) [0..<384]"
  have e: "generateDeterministicEmbedding txt = normalizeVector ?raw"
    by (simp add: generateDeterministicEmbedding_def EMBEDDING_DIMENSION_def embeddingComponent_spec[abs_def] Let_def)
  have l: "length (normalizeVector ?raw) = 384"
    by (simp add: normalizeVector_l2norm)
  have n: "l2norm (normalizeVector ?raw) = (if l2norm ?raw = 0 then 0 else 1)"
    using l2norm_scaled[of ?raw] by (simp add: normalizeVector_l2norm)
  show ?thesis unfolding e using l n by simp
qed


lemma l2norm_nonzero:
  assumes "x \<in> set v" "x \<noteq> 0"
  shows "l2norm v \<noteq> 0"
proof -
  have "x\<^sup>2 \<le> (\<Sum>y\<leftarrow>v. y\<^sup>2)"
    using assms(1) by (induction v) (auto simp: sum_squares_nonneg add_increasing add_increasing2)
  moreover have "0 < x\<^sup>2" using assms(2) by simp
  ultimately have "0 < (\<Sum>y\<leftarrow>v. y\<^sup>2)" by linarith
  then show ?thesis by (simp add: l2norm_def)
qed

theorem generateDeterministicEmbedding_norm_witness:
  "length (generateDeterministicEmbedding ''A'') = 384
   \<and> l2norm (map (spec_component (toLowerCase ''A'')) [0..<384]) \<noteq> 0
   \<and> l2norm (generateDeterministicEmbedding ''A'') = 1"
proof -
  have lc: "toLowerCase ''A'' = ''a''" by code_simp
  have "0 < sin (1 / 100 :: real)"
    by (rule sin_gt_zero) (use pi_ge_two in auto)
  then have "0 < spec_component ''a'' 0"
    by (simp add: spec_component_def)
  moreover have "spec_component ''a'' 0 \<in> set (map (spec_component ''a'') [0..<384])"
    by simp
  ultimately have nz: "l2norm (map (spec_component (toLowerCase ''A'')) [0..<384]) \<noteq> 0"
    unfolding lc by (intro l2norm_nonzero[where x="spec_component ''a'' 0"]) auto
  from generateDeterministicEmbedding_norm[of "''A''", THEN conjunct1] generateDeterministicEmbedding_norm[of "''A''", THEN conjunct2, THEN conjunct2] nz
  show ?thesis by simp
qed

text \<open>
  Claim C9 as stated fails on the empty text: its embedding is the zero vector, of norm 0.
\<close>

theorem empty_text_embedding_is_zero:
  "generateDeterministicEmbedding [] = replicate 384 0
   \<and> l2norm (generateDeterministicEmbedding []) = 0"
proof -
  have c: "embeddingComponent [] i = 0" for i
    by (simp add: embeddingComponent_def)
  have raw: "map (embeddingComponent (toLowerCase [])) [0..<EMBEDDING_DIMENSION] = replicate 384 0"
    by (simp add: toLowerCase_def c[abs_def] EMBEDDING_DIMENSION_def map_replicate_const)
  have z: "l2norm (replicate n 0) = 0" for n
    by (induction n) (simp_all add: l2norm_def)
  have "generateDeterministicEmbedding [] = replicate 384 0"
    unfolding generateDeterministicEmbedding_def Let_def raw
    by (simp add: normalizeVector_l2norm z)
  then show ?thesis by (simp add: z)
qed


subsection \<open>Cosine similarity is at most 1\<close>

lemma cos_foldl:
  "foldl (\<lambda>(d, na, nb) (x, y). (d + x * y, na + x * x, nb + y * y)) (d0, a0, b0) zs =
     (d0 + (\<Sum>(x, y)\<leftarrow>zs. x * y), a0 + (\<Sum>(x, y)\<leftarrow>zs. x * x), b0 + (\<Sum>(x, y)\<leftarrow>zs. y * y))"
  for d0 a0 b0 :: real
  by (induction zs arbitrary: d0 a0 b0) (auto simp: add.assoc)

lemma sum_sq_nonneg: "0 \<le> (\<Sum>(x, y)\<leftarrow>zs. x * x)" "0 \<le> (\<Sum>(x, y)\<leftarrow>zs. y * y)"
  for zs :: "(real \<times> real) list"
  by (induction zs) auto

lemma cauchy_schwarz_list:
  "(\<Sum>(x, y)\<leftarrow>zs. x * y)\<^sup>2 \<le> (\<Sum>(x, y)\<leftarrow>zs. x * x) * (\<Sum>(x, y)\<leftarrow>zs. y * y)"
  for zs :: "(real \<times> real) list"
proof (induction zs)
  case Nil
  then show ?case by simp
next
  case (Cons z zs)
  obtain x y where z: "z = (x, y)" by (cases z)
  let ?D = "\<Sum>(x, y)\<leftarrow>zs. x * y" and ?A = "\<Sum>(x, y)\<leftarrow>zs. x * x" and ?B = "\<Sum>(x, y)\<leftarrow>zs. y * y"
  have A: "0 \<le> ?A" and B: "0 \<le> ?B" by (rule sum_sq_nonneg)+
  have u: "0 \<le> x * x * ?B" and v: "0 \<le> y * y * ?A" using A B by simp_all
  have "(x * y * ?D)\<^sup>2 = (x * x) * (y * y) * ?D\<^sup>2" by (simp add: power2_eq_square)
  also have "\<dots> \<le> (x * x) * (y * y) * (?A * ?B)"
    using Cons.IH by (intro mult_left_mono) simp_all
  also have "\<dots> = (x * x * ?B) * (y * y * ?A)" by simp
  finally have "sqrt ((x * y * ?D)\<^sup>2) \<le> sqrt ((x * x * ?B) * (y * y * ?A))"
    by (rule real_sqrt_le_mono)
  also have "\<dots> \<le> (x * x * ?B + y * y * ?A) / 2"
    by (rule arith_geo_mean_sqrt[OF u v])
  finally have "\<bar>x * y * ?D\<bar> \<le> (x * x * ?B + y * y * ?A) / 2" by simp
  then have "x * y * ?D \<le> (x * x * ?B + y * y * ?A) / 2" by (rule order_trans[OF abs_ge_self])
  then have k: "2 * (x * y * ?D) \<le> x * x * ?B + y * y * ?A" by (simp add: field_simps)
  have "(x * y + ?D)\<^sup>2 = (x * y)\<^sup>2 + 2 * (x * y * ?D) + ?D\<^sup>2"
    by (simp add: power2_sum)
  also have "\<dots> \<le> (x * y)\<^sup>2 + (x * x * ?B + y * y * ?A) + ?A * ?B"
    using k Cons.IH by linarith
  also have "\<dots> = (x * x + ?A) * (y * y + ?B)"
    by (simp add: algebra_simps power2_eq_square)
  finally show ?case by (simp add: z)
qed

lemma cosineSimilarity_le_1: "cosineSimilarity a b \<le> 1"
proof (cases "length a = length b")
  case False
  then show ?thesis by (simp add: cosineSimilarity_def)
next
  case True
  let ?zs = "zip a b"
  let ?D = "\<Sum>(x, y)\<leftarrow>?zs. x * y" and ?A = "\<Sum>(x, y)\<leftarrow>?zs. x * x" and ?B = "\<Sum>(x, y)\<leftarrow>?zs. y * y"
  have c: "cosineSimilarity a b = (if sqrt ?A * sqrt ?B = 0 then 0 else ?D / (sqrt ?A * sqrt ?B))"
    using True by (simp add: cosineSimilarity_def cos_foldl Let_def)
  have "?D \<le> \<bar>?D\<bar>" by simp
  also have "\<dots> = sqrt (?D\<^sup>2)" by simp
  also have "\<dots> \<le> sqrt (?A * ?B)" by (rule real_sqrt_le_mono) (rule cauchy_schwarz_list)
  also have "\<dots> = sqrt ?A * sqrt ?B" by (rule real_sqrt_mult)
  finally have le: "?D \<le> sqrt ?A * sqrt ?B" .
  have nn: "0 \<le> sqrt ?A * sqrt ?B" by (simp add: sum_sq_nonneg)
  show ?thesis
  proof (cases "sqrt ?A * sqrt ?B = 0")
    case True
    then show ?thesis unfolding c by simp
  next
    case False
    with nn have "0 < sqrt ?A * sqrt ?B" by linarith
    with le have "?D / (sqrt ?A * sqrt ?B) \<le> 1" by (simp add: divide_le_eq)
    with False show ?thesis unfolding c by simp
  qed
qed


subsection \<open>Keyword fallback\<close>

lemma like_percent: "like_match ''%'' s"
  by (induction s) simp_all

lemma like_plain_prefix:
  assumes "no_wildcards kw"
  shows "like_match (kw @ ps) s \<longleftrightarrow> (\<exists>t. s = kw @ t \<and> like_match ps t)"
  using assms
proof (induction kw arbitrary: s)
  case Nil
  then show ?case by simp
next
  case (Cons k ks)
  then have k: "k \<noteq> CHR ''%''" "k \<noteq> CHR ''_''" "k \<noteq> CHR 0x5C" and ks: "no_wildcards ks"
    by (simp_all add: no_wildcards_def)
  show ?case
  proof (cases s)
    case Nil
    then show ?thesis using k by simp
  next
    case (Cons c t)
    then show ?thesis using k Cons.IH[OF ks, of t] by auto
  qed
qed

lemma like_percent_any:
  "like_match (CHR ''%'' # ps) s \<longleftrightarrow> (\<exists>a b. s = a @ b \<and> like_match ps b)"
proof (induction s)
  case Nil
  then show ?case by (cases ps) auto
next
  case (Cons c t)
  have "(\<exists>a b. c # t = a @ b \<and> like_match ps b) \<longleftrightarrow>
        like_match ps (c # t) \<or> (\<exists>a b. t = a @ b \<and> like_match ps b)"
    by (auto simp: Cons_eq_append_conv) 
  with Cons show ?case by simp
qed

lemma like_contains:
  assumes "no_wildcards kw"
  shows "like_match (''%'' @ kw @ ''%'') s \<longleftrightarrow> str_includes s kw"
proof -
  have "like_match (''%'' @ kw @ ''%'') s \<longleftrightarrow> (\<exists>a b. s = a @ b \<and> (\<exists>t. b = kw @ t))"
    using like_plain_prefix[OF assms, of "''%''"] like_percent
    by (simp add: like_percent_any)
  also have "\<dots> \<longleftrightarrow> sublist kw s" by (auto simp: sublist_def)
  finally show ?thesis by (simp add: str_includes_sublist)
qed

lemma lower_char_fixed:
  assumes "(of_char d :: nat) \<notin> {65..90} \<union> {97..122}"
  shows "lower_char c = d \<longleftrightarrow> c = d"
proof -
  have 1: "(lower_char c = d) = ((of_char (lower_char c) :: nat) = of_char d)" by simp
  have 2: "(c = d) = ((of_char c :: nat) = of_char d)" by simp
  have 3: "(of_char (lower_char c) :: nat) =
        (if 65 \<le> (of_char c :: nat) \<and> (of_char c :: nat) \<le> 90 then of_char c + 32 else of_char c)"
    by (simp add: lower_char_def Let_def)
  show ?thesis unfolding 1 2 3 using assms by auto
qed

lemma lower_char_wildcard:
  "lower_char c = CHR ''%'' \<longleftrightarrow> c = CHR ''%''"
  "lower_char c = CHR ''_'' \<longleftrightarrow> c = CHR ''_''"
  "lower_char c = CHR 0x5C \<longleftrightarrow> c = CHR 0x5C"
  by (rule lower_char_fixed, simp)+

lemma no_wildcards_lower: "no_wildcards (toLowerCase kw) = no_wildcards kw"
  by (induction kw) (simp_all add: no_wildcards_def toLowerCase_def lower_char_wildcard)

lemma ilike_contains:
  assumes "no_wildcards kw"
  shows "ilike s (''%'' @ kw @ ''%'') \<longleftrightarrow> str_includes (toLowerCase s) (toLowerCase kw)"
proof -
  have "toLowerCase (''%'' @ kw @ ''%'') = ''%'' @ toLowerCase kw @ ''%''"
    by (simp add: toLowerCase_def lower_char_wildcard)
  then show ?thesis
    using like_contains[of "toLowerCase kw" "toLowerCase s"] assms
    by (simp add: ilike_def no_wildcards_lower)
qed

lemma getActiveRankingWeights_frame:
  "\<exists>w db1. getActiveRankingWeights (Some db) = (w, Some db1)
      \<and> productsTable db1 = productsTable db
      \<and> searchLogsTable db1 = searchLogsTable db
      \<and> searchLogsSeq db1 = searchLogsSeq db"
proof (cases "filter isActive (rankingWeightsTable db)")
  case Nil
  then show ?thesis
    by (simp add: getActiveRankingWeights_insert insertRankingWeights_def)
next
  case (Cons r rs)
  then show ?thesis
    by (subst getActiveRankingWeights.simps) simp
qed

lemma semanticSearch_effect:
  "\<exists>db2. semanticSearch now candidates q opts (Some db) =
          (fst (semanticSearch now candidates q opts (Some db)), searchLogsSeq db + 1, Some db2)
     \<and> productsTable db2 = productsTable db
     \<and> searchLogsTable db2 = searchLogsTable db @
          [\<lparr>log_id = searchLogsSeq db + 1, log_sessionId = opt_sessionId opts, log_query = q,
            log_queryEmbedding = generateEmbedding q,
            log_resultsCount = length (fst (semanticSearch now candidates q opts (Some db)))\<rparr>]"
proof -
  from getActiveRankingWeights_frame[of db] obtain w db1 where
    g: "getActiveRankingWeights (Some db) = (w, Some db1)"
    and f: "productsTable db1 = productsTable db" "searchLogsTable db1 = searchLogsTable db"
           "searchLogsSeq db1 = searchLogsSeq db"
    by blast
  show ?thesis
    by (simp add: semanticSearch_def Let_def g logSearch_def f)
qed


lemma rankScored_empty:
  assumes "\<forall>x \<in> set xs. final (scores x) < opt_minScore opts"
  shows "rankScored opts xs = []"
proof -
  have "filter (\<lambda>r. final (scores r) \<ge> opt_minScore opts) xs = []"
    using assms by (auto simp: filter_empty_conv)
  then show ?thesis by (simp add: rankScored_def)
qed

text \<open>
  When the ranker returns nothing: the keyword boost is at most 0.5 and the cosine at most
  1, so under the default weights a candidate whose other four sub-scores weigh less than
  0.25 stays below the score threshold 1.
\<close>

lemma boost_le:
  "(if length (queryTerms q) > 0
    then (real (length (extractMatchedTerms q t)) / real (length (queryTerms q))) * 0.5 else 0) \<le> 0.5"
proof -
  have "length (extractMatchedTerms q t) \<le> length (queryTerms q)"
    by (simp add: extractMatchedTerms_def)
  then show ?thesis by (simp add: field_simps)
qed

lemma final_le:
  assumes "alpha w = 0.5" "beta w = 0.2" "gamma w = 0.15" "delta w = 0.1" "epsilon w = 0.05"
      and "c \<le> 1"
  shows "final (scores (scoreProduct now q w lo hi (p, c))) \<le>
     0.75 + (0.2 * normalizeRatingScore (rating p) + 0.15 * normalizePriceScore (priceNumber p) lo hi
             + 0.1 * normalizeStockScore (availability p) (stockQuantity p)
             + 0.05 * normalizeRecencyScore now (createdAt p))"
proof -
  define b where "b = (if length (queryTerms q) > 0
    then (real (length (extractMatchedTerms q (productText p))) / real (length (queryTerms q))) * 0.5 else 0)"
  have "b \<le> 0.5" unfolding b_def by (rule boost_le)
  with assms(6) have "max 0 (c + b) \<le> 1.5" by (simp add: max_def)
  then have "0.5 * max 0 (c + b) \<le> 0.75" by simp
  moreover have "final (scores (scoreProduct now q w lo hi (p, c))) =
      0.5 * max 0 (c + b) + 0.2 * normalizeRatingScore (rating p)
        + 0.15 * normalizePriceScore (priceNumber p) lo hi
        + 0.1 * normalizeStockScore (availability p) (stockQuantity p)
        + 0.05 * normalizeRecencyScore now (createdAt p)"
    unfolding b_def by (simp add: scoreProduct_def Let_def assms(1-5))
  ultimately show ?thesis by simp
qed

lemma ranker_empty:
  assumes "opt_minScore input = 1"
      and "filter isActive (rankingWeightsTable db) = []"
      and "\<And>p. p \<in> fst ` set cands \<Longrightarrow>
             0.2 * normalizeRatingScore (rating p)
             + 0.15 * normalizePriceScore (priceNumber p) 0 (maxPriceInSet (map fst cands))
             + 0.1 * normalizeStockScore (availability p) (stockQuantity p)
             + 0.05 * normalizeRecencyScore now (createdAt p) < 0.25"
  shows "fst (semanticSearch now cands q input (Some db)) = []"
proof -
  define w where "w = fst (getActiveRankingWeights (Some db))"
  have "w = defaultWeights\<lparr>rw_id := rankingWeightsSeq db + 1\<rparr>"
    unfolding w_def using assms(2) by (simp add: getActiveRankingWeights_insert)
  then have wv: "alpha w = 0.5" "beta w = 0.2" "gamma w = 0.15" "delta w = 0.1" "epsilon w = 0.05"
    by (simp_all add: defaultWeights_def)
  define sims where "sims = candidateSimilarities (generateEmbedding q) cands"
  have fs: "map fst sims = map fst cands"
    unfolding sims_def by (rule fst_candidateSimilarities)
  have cs: "snd x \<le> 1" if "x \<in> set sims" for x
    using that unfolding sims_def candidateSimilarities_def
    by (auto simp: cosineSimilarity_le_1)
  have "final (scores x) < opt_minScore input"
    if "x \<in> set (scoredProducts now q input w sims)" for x
  proof -
    from scoredProducts_member[OF that] obtain c' where
      c': "c' \<in> set sims" "x = scoreProduct now q w 0 (maxPriceInSet (map fst cands)) c'"
      unfolding fs minPriceInSet_zero by blast
    obtain p c where pc: "c' = (p, c)" by (cases c')
    from c'(1) have "p \<in> fst ` set cands"
      using fs unfolding pc by (metis fst_conv image_eqI set_map)
    from assms(3)[OF this] final_le[OF wv cs[OF c'(1)], of now q 0 "maxPriceInSet (map fst cands)" p]
    show ?thesis unfolding c'(2) pc assms(1) by simp
  qed
  then have "rankScored input (scoredProducts now q input w sims) = []"
    by (intro rankScored_empty) blast
  then show ?thesis
    unfolding fst_semanticSearch w_def sims_def .
qed

lemma unicorn_ranker_empty:
  assumes "opt_minScore input = 1"
  shows "fst (semanticSearch s5_now [(toy, None), (keyring, None)] q input (Some unicornDb)) = []"
proof (rule ranker_empty[OF assms])
  show "filter isActive (rankingWeightsTable unicornDb) = []"
    by (simp add: unicornDb_def emptyDb_def)
next
  fix p assume "p \<in> fst ` set [(toy, None :: vec option), (keyring, None)]"
  then have p: "p = toy \<or> p = keyring" by auto
  have b: "maxPriceInSet (map fst [(toy, None :: vec option), (keyring, None)]) = 10"
    by (simp add: maxPriceInSet_def candidatePrices_def priceNumber_def toy_def keyring_def)
  from p show "0.2 * normalizeRatingScore (rating p)
             + 0.15 * normalizePriceScore (priceNumber p) 0 (maxPriceInSet (map fst [(toy, None :: vec option), (keyring, None)]))
             + 0.1 * normalizeStockScore (availability p) (stockQuantity p)
             + 0.05 * normalizeRecencyScore s5_now (createdAt p) < 0.25"
    unfolding b
    by (auto simp: toy_def keyring_def normalizeRatingScore_def normalizeStockScore_def
       normalizeRecencyScore_def normalizePriceScore_def priceNumber_def s5_now_def)
qed

lemma plush_ranker_empty:
  assumes "opt_minScore input = 1"
  shows "fst (semanticSearch s5_now [(toy, None), (keyring, None), (bear, None)] q input (Some plushDb)) = []"
proof (rule ranker_empty[OF assms])
  show "filter isActive (rankingWeightsTable plushDb) = []"
    by (simp add: plushDb_def emptyDb_def)
next
  fix p assume "p \<in> fst ` set [(toy, None :: vec option), (keyring, None), (bear, None)]"
  then have p: "p = toy \<or> p = keyring \<or> p = bear" by auto
  have b: "maxPriceInSet (map fst [(toy, None :: vec option), (keyring, None), (bear, None)]) = 10"
    by (simp add: maxPriceInSet_def candidatePrices_def priceNumber_def toy_def keyring_def bear_def)
  from p show "0.2 * normalizeRatingScore (rating p)
             + 0.15 * normalizePriceScore (priceNumber p) 0 (maxPriceInSet (map fst [(toy, None :: vec option), (keyring, None), (bear, None)]))
             + 0.1 * normalizeStockScore (availability p) (stockQuantity p)
             + 0.05 * normalizeRecencyScore s5_now (createdAt p) < 0.25"
    unfolding b
    by (auto simp: toy_def keyring_def bear_def normalizeRatingScore_def normalizeStockScore_def
       normalizeRecencyScore_def normalizePriceScore_def priceNumber_def s5_now_def)
qed


text \<open>The procedure on its fallback path, and the pieces of the fallback spelled out.\<close>

lemma searchProductsByKeyword_table:
  assumes "productsTable db2 = productsTable db"
  shows "searchProductsByKeyword (Some db2) q n = searchProductsByKeyword (Some db) q n"
  by (simp add: searchProductsByKeyword_def assms)

lemma searchSemantic_fallback:
  assumes "fst (semanticSearch now candidates q input (Some db)) = []"
  shows "fst (searchSemantic now candidates q input (Some db)) =
           \<lparr>resp_results =
              map keywordResult
                (enumerate 0
                   (filter (keywordFilter input)
                      (searchProductsByKeyword (Some db) q (opt_limit input)))),
            resp_searchLogId = searchLogsSeq db + 1,
            aiServiceUsed = False, fallbackUsed = Some ''keyword''\<rparr>
       \<and> map_option searchLogsTable (snd (searchSemantic now candidates q input (Some db))) =
           Some (searchLogsTable db @
             [\<lparr>log_id = searchLogsSeq db + 1, log_sessionId = opt_sessionId input, log_query = q,
               log_queryEmbedding = generateEmbedding q, log_resultsCount = 0\<rparr>])"
proof -
  from semanticSearch_effect[of now candidates q input db] assms obtain db2 where
    ss: "semanticSearch now candidates q input (Some db) = ([], searchLogsSeq db + 1, Some db2)"
    and pt: "productsTable db2 = productsTable db"
    and lt: "searchLogsTable db2 = searchLogsTable db @
          [\<lparr>log_id = searchLogsSeq db + 1, log_sessionId = opt_sessionId input, log_query = q,
            log_queryEmbedding = generateEmbedding q, log_resultsCount = 0\<rparr>]"
    by auto
  show ?thesis
    by (simp add: searchSemantic_def ss Let_def searchProductsByKeyword_table[OF pt] lt)
qed

lemma keywordFilter_passes:
  "keywordFilter input p \<longleftrightarrow>
     (case opt_category input of
        None \<Rightarrow> True
      | Some c \<Rightarrow> c = [] \<or> map_option toLowerCase (category p) = Some (toLowerCase c))
     \<and> (case opt_minPrice input of
          None \<Rightarrow> True | Some m \<Rightarrow> m \<le> (case price p of None \<Rightarrow> 0 | Some x \<Rightarrow> x))
     \<and> (case opt_maxPrice input of
          None \<Rightarrow> True | Some m \<Rightarrow> (case price p of None \<Rightarrow> 0 | Some x \<Rightarrow> x) \<le> m)
     \<and> (opt_inStockOnly input \<longrightarrow> availability p \<noteq> Some out_of_stock)"
  by (auto simp: keywordFilter_def Let_def priceNumber_def split: option.splits)

lemma keywordResult_fields:
  "keywordResult =
     (\<lambda>(i, p). \<lparr>product = p,
                 scores = \<lparr>final = 0.5, semantic = 0,
                           ratingScore = (case rating p of None \<Rightarrow> 0.5 | Some x \<Rightarrow> x / 5),
                           priceScore = 0.5,
                           stockScore = (if availability p = Some out_of_stock then 0 else 1),
                           recencyScore = 0.5\<rparr>,
                 matchedTerms = [], position = i + 1\<rparr>)"
  by (auto simp: fun_eq_iff keywordResult_def Let_def)

lemma searchProductsByKeyword_plain:
  assumes "no_wildcards (trim q)"
  shows "searchProductsByKeyword (Some db) q n =
     take n
       (filter (\<lambda>p. sublist (toLowerCase (trim q)) (toLowerCase (title p))
                  \<or> sublist (toLowerCase (trim q))
                       (toLowerCase (case description p of None \<Rightarrow> [] | Some d \<Rightarrow> d))
                  \<or> sublist (toLowerCase (trim q))
                       (toLowerCase (case category p of None \<Rightarrow> [] | Some c \<Rightarrow> c)))
          (productsTable db))"
  by (simp add: searchProductsByKeyword_def Let_def ilike_contains[OF assms, simplified]
        str_includes_sublist)

lemma keyword_fallback_core:
  assumes "fst (semanticSearch now candidates q input (Some db)) = []"
      and "no_wildcards (trim q)"
  shows
    "(let kw = toLowerCase (trim q);
          hit = (\<lambda>s. sublist kw (toLowerCase s));
          matching =
            filter (\<lambda>p. hit (title p)
                       \<or> hit (case description p of None \<Rightarrow> [] | Some d \<Rightarrow> d)
                       \<or> hit (case category p of None \<Rightarrow> [] | Some c \<Rightarrow> c))
              (productsTable db);
          passes =
            (\<lambda>p. (case opt_category input of
                     None \<Rightarrow> True
                   | Some c \<Rightarrow> c = [] \<or> map_option toLowerCase (category p) = Some (toLowerCase c))
                 \<and> (case opt_minPrice input of
                      None \<Rightarrow> True | Some m \<Rightarrow> m \<le> (case price p of None \<Rightarrow> 0 | Some x \<Rightarrow> x))
                 \<and> (case opt_maxPrice input of
                      None \<Rightarrow> True | Some m \<Rightarrow> (case price p of None \<Rightarrow> 0 | Some x \<Rightarrow> x) \<le> m)
                 \<and> (opt_inStockOnly input \<longrightarrow> availability p \<noteq> Some out_of_stock));
          returned = filter passes (take (opt_limit input) matching);
          result =
            (\<lambda>(i, p). \<lparr>product = p,
                        scores = \<lparr>final = 0.5, semantic = 0,
                                  ratingScore = (case rating p of None \<Rightarrow> 0.5 | Some x \<Rightarrow> x / 5),
                                  priceScore = 0.5,
                                  stockScore = (if availability p = Some out_of_stock then 0 else 1),
                                  recencyScore = 0.5\<rparr>,
                        matchedTerms = [], position = i + 1\<rparr>)
      in fst (searchSemantic now candidates q input (Some db)) =
           \<lparr>resp_results = map result (enumerate 0 returned),
            resp_searchLogId = searchLogsSeq db + 1,
            aiServiceUsed = False, fallbackUsed = Some ''keyword''\<rparr>
         \<and> map_option searchLogsTable (snd (searchSemantic now candidates q input (Some db))) =
             Some (searchLogsTable db @
               [\<lparr>log_id = searchLogsSeq db + 1, log_sessionId = opt_sessionId input, log_query = q,
                 log_queryEmbedding = generateEmbedding q, log_resultsCount = 0\<rparr>]))"
proof -
  have f: "keywordFilter input = (\<lambda>p. (case opt_category input of
                     None \<Rightarrow> True
                   | Some c \<Rightarrow> c = [] \<or> map_option toLowerCase (category p) = Some (toLowerCase c))
                 \<and> (case opt_minPrice input of
                      None \<Rightarrow> True | Some m \<Rightarrow> m \<le> (case price p of None \<Rightarrow> 0 | Some x \<Rightarrow> x))
                 \<and> (case opt_maxPrice input of
                      None \<Rightarrow> True | Some m \<Rightarrow> (case price p of None \<Rightarrow> 0 | Some x \<Rightarrow> x) \<le> m)
                 \<and> (opt_inStockOnly input \<longrightarrow> availability p \<noteq> Some out_of_stock))"
    by (simp only: fun_eq_iff keywordFilter_passes) simp
  show ?thesis
    unfolding Let_def
    using searchSemantic_fallback[OF assms(1)]
    unfolding searchProductsByKeyword_plain[OF assms(2)] f keywordResult_fields
    by simp
qed


text \<open>
  Claim C4, as the code has it. Whenever the ranker returns no result (the database being
  reachable, the trimmed query free of the \<^verbatim>\<open>LIKE\<close> wildcards, the session id within the 64
  characters of its column), the procedure answers with the keyword fallback, whether or
  not the query has a token of length above 2. The products
  whose title, description or category contain the trimmed query as a case-insensitive
  substring are taken in table order and cut to the first \<open>limit\<close>; of these, the ones that
  pass the request's filters are returned, in positions 1, 2, ...: the category (compared
  without regard to case, when one is given), the price range (an unknown price counting
  as 0), and, on request, not out of stock. Each result has final score 0.5, semantic 0,
  rating sub-score rating/5 (0.5 when unrated), price 0.5, recency 0.5, stock 0 when out of
  stock and 1 otherwise (1 also when low in stock, where \<^verbatim>\<open>normalizeStockScore\<close> has 0.5),
  and no matched terms. The response carries \<^verbatim>\<open>fallbackUsed: "keyword"\<close> and the id of the
  search log row that \<^verbatim>\<open>semanticSearch\<close> appended, with result count 0.
\<close>

theorem keyword_fallback:
  assumes "fst (semanticSearch now candidates q input (Some db)) = []"
      and "no_wildcards (trim q)"
      and "length (opt_sessionId input) \<le> 64"
  shows
    "(let kw = toLowerCase (trim q);
          hit = (\<lambda>s. sublist kw (toLowerCase s));
          matching =
            filter (\<lambda>p. hit (title p)
                       \<or> hit (case description p of None \<Rightarrow> [] | Some d \<Rightarrow> d)
                       \<or> hit (case category p of None \<Rightarrow> [] | Some c \<Rightarrow> c))
              (productsTable db);
          passes =
            (\<lambda>p. (case opt_category input of
                     None \<Rightarrow> True
                   | Some c \<Rightarrow> c = [] \<or> map_option toLowerCase (category p) = Some (toLowerCase c))
                 \<and> (case opt_minPrice input of
                      None \<Rightarrow> True | Some m \<Rightarrow> m \<le> (case price p of None \<Rightarrow> 0 | Some x \<Rightarrow> x))
                 \<and> (case opt_maxPrice input of
                      None \<Rightarrow> True | Some m \<Rightarrow> (case price p of None \<Rightarrow> 0 | Some x \<Rightarrow> x) \<le> m)
                 \<and> (opt_inStockOnly input \<longrightarrow> availability p \<noteq> Some out_of_stock));
          returned = filter passes (take (opt_limit input) matching);
          result =
            (\<lambda>(i, p). \<lparr>product = p,
                        scores = \<lparr>final = 0.5, semantic = 0,
                                  ratingScore = (case rating p of None \<Rightarrow> 0.5 | Some x \<Rightarrow> x / 5),
                                  priceScore = 0.5,
                                  stockScore = (if availability p = Some out_of_stock then 0 else 1),
                                  recencyScore = 0.5\<rparr>,
                        matchedTerms = [], position = i + 1\<rparr>)
      in fst (searchSemantic now candidates q input (Some db)) =
           \<lparr>resp_results = map result (enumerate 0 returned),
            resp_searchLogId = searchLogsSeq db + 1,
            aiServiceUsed = False, fallbackUsed = Some ''keyword''\<rparr>
         \<and> map_option searchLogsTable (snd (searchSemantic now candidates q input (Some db))) =
             Some (searchLogsTable db @
               [\<lparr>log_id = searchLogsSeq db + 1, log_sessionId = opt_sessionId input, log_query = q,
                 log_queryEmbedding = generateEmbedding q, log_resultsCount = 0\<rparr>]))"
  using assms(1,2) by (rule keyword_fallback_core)

lemma s5_plain: "no_wildcards (trim s5_query)" "trim s5_query = s5_query"
  by code_simp+

lemma s5_blank: "no_wildcards (trim '' unicorn plush'')" "trim '' unicorn plush'' = s5_query"
  by code_simp+

lemma s5_hits:
  "sublist (toLowerCase s5_query) (toLowerCase ''Unicorn Plush Toy'')"
  "sublist (toLowerCase s5_query) (toLowerCase ''Unicorn Plush Keyring'')"
  "sublist (toLowerCase s5_query) (toLowerCase ''Unicorn Plush Bear'')"
  by code_simp+

lemma s5_titles:
  "title toy = ''Unicorn Plush Toy''" "title keyring = ''Unicorn Plush Keyring''"
  "title bear = ''Unicorn Plush Bear''"
  by (simp_all add: toy_def keyring_def bear_def)

theorem keyword_fallback_witness:
  "fst (semanticSearch s5_now [(toy, None), (keyring, None)] s5_query s5_input (Some unicornDb)) = []
   \<and> no_wildcards (trim s5_query)
   \<and> length (opt_sessionId s5_input) \<le> 64
   \<and> fst (searchSemantic s5_now [(toy, None), (keyring, None)] s5_query s5_input (Some unicornDb)) =
       \<lparr>resp_results =
          [\<lparr>product = toy,
            scores = \<lparr>final = 0.5, semantic = 0, ratingScore = 0.6, priceScore = 0.5,
                      stockScore = 0, recencyScore = 0.5\<rparr>,
            matchedTerms = [], position = 1\<rparr>,
           \<lparr>product = keyring,
            scores = \<lparr>final = 0.5, semantic = 0, ratingScore = 0.6, priceScore = 0.5,
                      stockScore = 1, recencyScore = 0.5\<rparr>,
            matchedTerms = [], position = 2\<rparr>],
        resp_searchLogId = 1, aiServiceUsed = False, fallbackUsed = Some ''keyword''\<rparr>
   \<and> map_option searchLogsTable
       (snd (searchSemantic s5_now [(toy, None), (keyring, None)] s5_query s5_input (Some unicornDb))) =
       Some [\<lparr>log_id = 1, log_sessionId = ''session'', log_query = s5_query,
              log_queryEmbedding = generateEmbedding s5_query, log_resultsCount = 0\<rparr>]"
proof -
  have h1: "fst (semanticSearch s5_now [(toy, None), (keyring, None)] s5_query s5_input (Some unicornDb)) = []"
    by (rule unicorn_ranker_empty) (simp add: s5_input_def)
  have h3: "length (opt_sessionId s5_input) \<le> 64" by (simp add: s5_input_def)
  note t = keyword_fallback[OF h1 s5_plain(1) h3, unfolded Let_def s5_plain(2)]
  have r: "fst (searchSemantic s5_now [(toy, None), (keyring, None)] s5_query s5_input (Some unicornDb)) =
       \<lparr>resp_results =
          [\<lparr>product = toy,
            scores = \<lparr>final = 0.5, semantic = 0, ratingScore = 0.6, priceScore = 0.5,
                      stockScore = 0, recencyScore = 0.5\<rparr>,
            matchedTerms = [], position = 1\<rparr>,
           \<lparr>product = keyring,
            scores = \<lparr>final = 0.5, semantic = 0, ratingScore = 0.6, priceScore = 0.5,
                      stockScore = 1, recencyScore = 0.5\<rparr>,
            matchedTerms = [], position = 2\<rparr>],
        resp_searchLogId = 1, aiServiceUsed = False, fallbackUsed = Some ''keyword''\<rparr>"
    unfolding t[THEN conjunct1]
    apply (simp add: unicornDb_def emptyDb_def s5_titles s5_hits s5_input_def enumerate_eq_zip)
    apply (simp add: toy_def keyring_def)
    done
  have l: "map_option searchLogsTable
       (snd (searchSemantic s5_now [(toy, None), (keyring, None)] s5_query s5_input (Some unicornDb))) =
       Some [\<lparr>log_id = 1, log_sessionId = ''session'', log_query = s5_query,
              log_queryEmbedding = generateEmbedding s5_query, log_resultsCount = 0\<rparr>]"
    unfolding t[THEN conjunct2]
    by (simp add: unicornDb_def emptyDb_def s5_input_def)
  from h1 s5_plain(1) h3 r l show ?thesis by blast
qed


lemma unicorn_matches:
  "searchProductsByKeyword (Some unicornDb) s5_query n = take n [toy, keyring]"
  "searchProductsByKeyword (Some unicornDb) '' unicorn plush'' n = take n [toy, keyring]"
  unfolding searchProductsByKeyword_plain[OF s5_plain(1)] searchProductsByKeyword_plain[OF s5_blank(1)]
    s5_plain(2) s5_blank(2)
  by (simp_all add: unicornDb_def s5_titles s5_hits)

lemma underscore_hits:
  "ilike ''Unicorn Plush Toy'' (''%'' @ trim ''unicorn_plush'' @ ''%'')"
  "ilike ''Unicorn Plush Keyring'' (''%'' @ trim ''unicorn_plush'' @ ''%'')"
  by code_simp+

lemma unicorn_underscore_matches:
  "searchProductsByKeyword (Some unicornDb) ''unicorn_plush'' n = take n [toy, keyring]"
  using underscore_hits
  by (simp add: searchProductsByKeyword_def Let_def unicornDb_def s5_titles)

lemma plush_matches:
  "searchProductsByKeyword (Some plushDb) s5_query n = take n [toy, keyring, bear]"
  unfolding searchProductsByKeyword_plain[OF s5_plain(1)] s5_plain(2)
  by (simp add: plushDb_def s5_titles s5_hits)

lemma not_contained:
  "\<not> sublist (toLowerCase ''unicorn_plush'') (toLowerCase ''Unicorn Plush Toy'')"
  "\<not> sublist (toLowerCase ''unicorn_plush'') (toLowerCase ''Unicorn Plush Keyring'')"
  "\<not> sublist (toLowerCase ''unicorn_plush'') (toLowerCase ''Toys'')"
  "\<not> sublist (toLowerCase ''unicorn_plush'') (toLowerCase [])"
  "\<not> sublist (toLowerCase '' unicorn plush'') (toLowerCase ''Unicorn Plush Toy'')"
  "\<not> sublist (toLowerCase '' unicorn plush'') (toLowerCase ''Unicorn Plush Keyring'')"
  "\<not> sublist (toLowerCase '' unicorn plush'') (toLowerCase ''Toys'')"
  "\<not> sublist (toLowerCase '' unicorn plush'') (toLowerCase [])"
  by code_simp+

lemma s5_fields:
  "description toy = None" "category toy = Some ''Toys''"
  "description keyring = None" "category keyring = Some ''Toys''"
  "availability keyring = Some in_stock"
  by (simp_all add: toy_def keyring_def)

text \<open>
  Claim C4 as stated fails on ``exactly the products that contain the query'' and on the
  stock sub-score. In the catalog of the toy (out of stock) and the keyring, the ranker
  returning nothing each time: with the in-stock-only filter the fallback returns the
  keyring alone although the toy's title contains \<^verbatim>\<open>unicorn plush\<close>; with that filter and
  limit 1 it returns nothing, the cut to one match keeping the toy, although the keyring
  contains the query and is in stock; for \<^verbatim>\<open>unicorn_plush\<close>, where the underscore stands for
  any character, and for the query with a leading blank it returns both products although
  neither contains the query. With a third product that is low in stock, that product's
  stock sub-score is 1, not 0.5.
\<close>

theorem keyword_fallback_respects_filters:
  "(let cands = [(toy, None), (keyring, None)];
        ranked = (\<lambda>q input. fst (semanticSearch s5_now cands q input (Some unicornDb)));
        ids = (\<lambda>q input. map (\<lambda>r. prod_id (product r))
                 (resp_results (fst (searchSemantic s5_now cands q input (Some unicornDb)))));
        contains = (\<lambda>p q. sublist (toLowerCase q) (toLowerCase (title p))
                     \<or> sublist (toLowerCase q) (toLowerCase (case description p of None \<Rightarrow> [] | Some d \<Rightarrow> d))
                     \<or> sublist (toLowerCase q) (toLowerCase (case category p of None \<Rightarrow> [] | Some c \<Rightarrow> c)));
        inStock = s5_input\<lparr>opt_inStockOnly := True\<rparr>;
        inStockOne = s5_input\<lparr>opt_inStockOnly := True, opt_limit := 1\<rparr>;
        withLowStock = [(toy, None), (keyring, None), (bear, None)]
    in list_all (\<lambda>q. list_ex (\<lambda>t. length t > 2) (split_ws q))
         [s5_query, ''unicorn_plush'', '' unicorn plush'']
       \<and> ranked s5_query inStock = [] \<and> ids s5_query inStock = [2] \<and> contains toy s5_query
       \<and> ranked s5_query inStockOne = [] \<and> ids s5_query inStockOne = []
         \<and> contains keyring s5_query \<and> availability keyring = Some in_stock
       \<and> ranked ''unicorn_plush'' s5_input = [] \<and> ids ''unicorn_plush'' s5_input = [1, 2]
         \<and> \<not> contains toy ''unicorn_plush'' \<and> \<not> contains keyring ''unicorn_plush''
       \<and> ranked '' unicorn plush'' s5_input = [] \<and> ids '' unicorn plush'' s5_input = [1, 2]
         \<and> \<not> contains toy '' unicorn plush'' \<and> \<not> contains keyring '' unicorn plush''
       \<and> fst (semanticSearch s5_now withLowStock s5_query s5_input (Some plushDb)) = []
         \<and> map (\<lambda>r. (prod_id (product r), availability (product r), stockScore (scores r)))
              (resp_results (fst (searchSemantic s5_now withLowStock s5_query s5_input (Some plushDb))))
            = [(1, Some out_of_stock, 0), (2, Some in_stock, 1), (3, Some low_stock, 1)])"
proof -
  let ?c = "[(toy, None :: vec option), (keyring, None)]"
  let ?ids = "\<lambda>q input. map (\<lambda>r. prod_id (product r))
                 (resp_results (fst (searchSemantic s5_now ?c q input (Some unicornDb))))"
  have e: "fst (semanticSearch s5_now ?c q (s5_input\<lparr>opt_inStockOnly := b, opt_limit := n\<rparr>) (Some unicornDb)) = []"
          "fst (semanticSearch s5_now ?c q (s5_input\<lparr>opt_inStockOnly := b\<rparr>) (Some unicornDb)) = []"
          "fst (semanticSearch s5_now ?c q s5_input (Some unicornDb)) = []" for q b n
    by (rule unicorn_ranker_empty, simp add: s5_input_def)+
  have e3: "fst (semanticSearch s5_now [(toy, None), (keyring, None), (bear, None)] s5_query s5_input (Some plushDb)) = []"
    by (rule plush_ranker_empty) (simp add: s5_input_def)
  have tok: "list_all (\<lambda>q. list_ex (\<lambda>t. length t > 2) (split_ws q))
         [s5_query, ''unicorn_plush'', '' unicorn plush'']"
    by code_simp
  have i1: "?ids s5_query (s5_input\<lparr>opt_inStockOnly := True\<rparr>) = [2]"
    unfolding searchSemantic_fallback[OF e(2), THEN conjunct1]
    unfolding unicorn_matches
    by (simp add: s5_input_def keywordFilter_def Let_def)
       (simp add: toy_def keyring_def priceNumber_def keywordResult_def Let_def)
  have i2: "?ids s5_query (s5_input\<lparr>opt_inStockOnly := True, opt_limit := 1\<rparr>) = []"
    unfolding searchSemantic_fallback[OF e(1), THEN conjunct1]
    unfolding unicorn_matches
    by (simp add: s5_input_def keywordFilter_def Let_def)
       (simp add: toy_def keywordResult_def Let_def)
  have i3: "?ids ''unicorn_plush'' s5_input = [1, 2]"
    unfolding searchSemantic_fallback[OF e(3), THEN conjunct1]
    unfolding unicorn_underscore_matches
    by (simp add: s5_input_def keywordFilter_def Let_def)
       (simp add: toy_def keyring_def priceNumber_def keywordResult_def Let_def)
  have i4: "?ids '' unicorn plush'' s5_input = [1, 2]"
    unfolding searchSemantic_fallback[OF e(3), THEN conjunct1]
    unfolding unicorn_matches
    by (simp add: s5_input_def keywordFilter_def Let_def)
       (simp add: toy_def keyring_def priceNumber_def keywordResult_def Let_def)
  have i5: "map (\<lambda>r. (prod_id (product r), availability (product r), stockScore (scores r)))
              (resp_results (fst (searchSemantic s5_now [(toy, None), (keyring, None), (bear, None)] s5_query s5_input (Some plushDb))))
            = [(1, Some out_of_stock, 0), (2, Some in_stock, 1), (3, Some low_stock, 1)]"
    unfolding searchSemantic_fallback[OF e3, THEN conjunct1]
    by (simp add: plush_matches s5_input_def keywordFilter_def Let_def keywordResult_def enumerate_eq_zip)
       (simp add: toy_def keyring_def bear_def)
  show ?thesis
    unfolding Let_def
    using tok e3 i1 i2 i3 i4 i5
    by (simp add: e s5_titles s5_fields s5_hits not_contained)
qed


end
